theory Spec2Isabelle
  imports Complex_Main
begin

section \<open>The font CSS responder of connect-fonts (lib/css-responder.js)\<close>

text \<open>
  A shallow embedding of \<^verbatim>\<open>lib/css-responder.js\<close>. JavaScript strings are modelled as
  \<^typ>\<open>string\<close>, one \<^typ>\<open>char\<close> per code unit (code units below 256, which covers
  request lines, header values and font names as Node delivers them). A value that
  may be \<^verbatim>\<open>undefined\<close> is an \<^typ>\<open>'a option\<close>. Callbacks are modelled by the value they
  are called with, and the module's variables by an explicit state record.
\<close>

subsection \<open>JavaScript strings and arrays\<close>

text \<open>ToBoolean of a value that is a string or \<^verbatim>\<open>undefined\<close>: only \<^verbatim>\<open>undefined\<close> and the
  empty string are falsy.\<close>

definition truthy :: "string option \<Rightarrow> bool" where
  "truthy v = (case v of None \<Rightarrow> False | Some s \<Rightarrow> s \<noteq> [])"

text \<open>\<^verbatim>\<open>s.split(',')\<close>: the pieces between the commas, empty pieces included; the empty
  string gives one empty piece.\<close>

fun split_on :: "char \<Rightarrow> string \<Rightarrow> string list" where
  "split_on c [] = [[]]"
| "split_on c (x # xs) =
     (if x = c then [] # split_on c xs
      else (case split_on c xs of [] \<Rightarrow> [[x]] | w # ws \<Rightarrow> (x # w) # ws))"

definition split_comma :: "string \<Rightarrow> string list" where
  "split_comma s = split_on CHR '','' s"

text \<open>Array to string conversion (\<^verbatim>\<open>'' + fonts\<close>, that is \<^verbatim>\<open>fonts.join(',')\<close>).\<close>

fun join_comma :: "string list \<Rightarrow> string" where
  "join_comma [] = []"
| "join_comma [x] = x"
| "join_comma (x # y # ys) = x @ CHR '','' # join_comma (y # ys)"

text \<open>The class \<^verbatim>\<open>\w\<close> of a regular expression without the unicode flag.\<close>

definition word_chars :: string where
  "word_chars = ''abcdefghijklmnopqrstuvwxyzABCDEFGHIJKLMNOPQRSTUVWXYZ0123456789_''"

definition is_word_char :: "char \<Rightarrow> bool" where
  "is_word_char c = (c \<in> set word_chars)"

text \<open>\<^verbatim>\<open>s.replace(/\W/g, '-')\<close>: every code unit outside \<^verbatim>\<open>\w\<close> becomes a dash.\<close>

definition replace_non_word :: "string \<Rightarrow> string" where
  "replace_non_word s = map (\<lambda>c. if is_word_char c then c else CHR ''-'') s"

subsection \<open>The URL pattern\<close>

text \<open>
  The pattern \<^verbatim>\<open>/(?:\/([^\/]+))?\/([^\/]+)\/fonts\.css$/\<close> as a backtracking matcher in
  continuation passing style: each piece consumes a prefix of the input and hands the
  rest to its continuation; \<open>None\<close> is failure, on which the caller tries its next
  alternative, in the order of the regular expression engine (greedy: longest first).
\<close>

type_synonym re_match = "string option \<times> string"

text \<open>A literal string.\<close>

fun re_lit :: "string \<Rightarrow> string \<Rightarrow> (string \<Rightarrow> 'a option) \<Rightarrow> 'a option" where
  "re_lit [] s k = k s"
| "re_lit (c # cs) [] k = None"
| "re_lit (c # cs) (x # xs) k = (if x = c then re_lit cs xs k else None)"

text \<open>\<^verbatim>\<open>[^c]*\<close>, greedy, the consumed text accumulated for the capture group.\<close>

fun re_star_not :: "char \<Rightarrow> string \<Rightarrow> string \<Rightarrow> (string \<Rightarrow> string \<Rightarrow> 'a option) \<Rightarrow> 'a option" where
  "re_star_not c acc [] k = k acc []"
| "re_star_not c acc (x # xs) k =
     (if x \<noteq> c
      then (case re_star_not c (acc @ [x]) xs k of
              Some r \<Rightarrow> Some r
            | None \<Rightarrow> k acc (x # xs))
      else k acc (x # xs))"

text \<open>\<^verbatim>\<open>([^c]+)\<close>: one such character, then \<^verbatim>\<open>[^c]*\<close>.\<close>

definition re_plus_not :: "char \<Rightarrow> string \<Rightarrow> (string \<Rightarrow> string \<Rightarrow> 'a option) \<Rightarrow> 'a option" where
  "re_plus_not c s k =
     (case s of [] \<Rightarrow> None
      | x # xs \<Rightarrow> if x \<noteq> c then re_star_not c [x] xs k else None)"

text \<open>\<^verbatim>\<open>\/([^\/]+)\/fonts\.css$\<close>, the part after the optional group; \<open>m1\<close> is what group 1
  captured.\<close>

definition re_fonts_tail :: "string option \<Rightarrow> string \<Rightarrow> re_match option" where
  "re_fonts_tail m1 s =
     re_lit ''/'' s (\<lambda>s1.
       re_plus_not CHR ''/'' s1 (\<lambda>m2 s2.
         re_lit ''/fonts.css'' s2 (\<lambda>s3.
           if s3 = [] then Some (m1, m2) else None)))"

text \<open>The whole pattern at one start position: first with the optional group
  \<^verbatim>\<open>(?:\/([^\/]+))?\<close>, then without it.\<close>

definition re_fonts_at :: "string \<Rightarrow> re_match option" where
  "re_fonts_at s =
     (case re_lit ''/'' s (\<lambda>s1.
             re_plus_not CHR ''/'' s1 (\<lambda>m1 s2. re_fonts_tail (Some m1) s2)) of
        Some m \<Rightarrow> Some m
      | None \<Rightarrow> re_fonts_tail None s)"

text \<open>\<^verbatim>\<open>exec\<close>: the start positions from left to right, the first match wins.\<close>

fun re_fonts_exec :: "string \<Rightarrow> re_match option" where
  "re_fonts_exec [] = re_fonts_at []"
| "re_fonts_exec (c # cs) =
     (case re_fonts_at (c # cs) of
        Some m \<Rightarrow> Some m
      | None \<Rightarrow> re_fonts_exec cs)"

subsection \<open>Numbers as text\<close>

text \<open>
  \<^verbatim>\<open>'public, max-age=' + (maxAge / 1000)\<close> appends the text of the number
  \<^verbatim>\<open>maxAge / 1000\<close>. When \<^verbatim>\<open>maxAge\<close> is an integer of magnitude below \<open>10^15\<close> the
  quotient has at most fifteen significant digits and lies between \<open>10^-3\<close> and
  \<open>10^12\<close> in magnitude, so its text is its exact decimal expansion: a minus sign when
  it is negative, the integer part, and when the division leaves a remainder a point
  and the remainder's three digits without trailing zeros. The functions below print
  that expansion; they are used in this range only.
\<close>

definition digit_char :: "nat \<Rightarrow> char" where
  "digit_char d = ''0123456789'' ! (d mod 10)"

fun show_nat :: "nat \<Rightarrow> string" where
  "show_nat n = (if n < 10 then [digit_char n] else show_nat (n div 10) @ [digit_char (n mod 10)])"

declare show_nat.simps [simp del]

definition show_millis_fraction :: "nat \<Rightarrow> string" where
  "show_millis_fraction r =
     (if r mod 100 = 0 then [digit_char (r div 100)]
      else if r mod 10 = 0 then [digit_char (r div 100), digit_char (r div 10 mod 10)]
      else [digit_char (r div 100), digit_char (r div 10 mod 10), digit_char (r mod 10)])"

definition show_div_1000 :: "nat \<Rightarrow> string" where
  "show_div_1000 n =
     (if n mod 1000 = 0 then show_nat (n div 1000)
      else show_nat (n div 1000) @ CHR ''.'' # show_millis_fraction (n mod 1000))"

definition show_int_div_1000 :: "int \<Rightarrow> string" where
  "show_int_div_1000 m =
     (if m < 0 then CHR ''-'' # show_div_1000 (nat (- m)) else show_div_1000 (nat m))"

subsection \<open>Data model\<close>

text \<open>The errors the module sees: the generator's \<^verbatim>\<open>InvalidFontError\<close>, any other error of
  the generator, an error of the file system, and the \<^verbatim>\<open>TypeError\<close> of the runtime.\<close>

datatype error =
    InvalidFontError string
  | GenerationError string
  | IOError string
  | TypeError string

text \<open>\<^verbatim>\<open>err instanceof InvalidFontError\<close>\<close>

fun instanceof_InvalidFontError :: "error \<Rightarrow> bool" where
  "instanceof_InvalidFontError (InvalidFontError _) = True"
| "instanceof_InvalidFontError _ = False"

text \<open>The object \<^verbatim>\<open>{ css: cssStr }\<close>, which \<^verbatim>\<open>get_css\<close> extends by \<^verbatim>\<open>cssPath\<close> before caching
  it.\<close>

record cssObj =
  css :: string
  cssPath :: "string option"

text \<open>Of the options handed to \<^verbatim>\<open>setup\<close> and kept in \<^verbatim>\<open>config\<close>, the responder reads
  \<^verbatim>\<open>config.ua\<close> only.\<close>

record options =
  options_ua :: "string option"

text \<open>The module's variables \<^verbatim>\<open>config\<close>, \<^verbatim>\<open>maxAge\<close>, \<^verbatim>\<open>compress\<close>, \<^verbatim>\<open>cssCache\<close> and
  \<^verbatim>\<open>cssTmpPath\<close>, together with what the module does to the outside: \<open>disk\<close> holds
  the files written with \<^verbatim>\<open>fs.writeFile\<close>, \<open>generated\<close> the calls made to
  \<^verbatim>\<open>css_generator.get_font_css\<close>, the latest first. \<open>config = None\<close> is the module
  before \<^verbatim>\<open>setup\<close>. \<open>maxAge\<close> is the number that \<^verbatim>\<open>setup\<close> stores as it is given
  (\<^verbatim>\<open>options.maxage || 0\<close>, unchecked): any finite number, negative and fractional
  ones too, as a rational; \<open>compress\<close> is a truth value (before \<^verbatim>\<open>setup\<close> both are
  \<^verbatim>\<open>undefined\<close>, which the module's tests treat like \<open>0\<close> and \<open>False\<close>). A write that fails is taken to
  leave the disk as it was. A cache key always contains a dash, so it never names a property
  that the object \<^verbatim>\<open>cssCache\<close> inherits, and the object is a map.\<close>

record state =
  config :: "options option"
  maxAge :: rat
  compress :: bool
  cssCache :: "string \<rightharpoonup> cssObj"
  cssTmpPath :: "string option"
  disk :: "string \<rightharpoonup> string"
  generated :: "(string \<times> string \<times> string list) list"

text \<open>The collaborators, by what they answer: the font CSS generator, \<^verbatim>\<open>tmp.dir\<close> and
  \<^verbatim>\<open>fs.writeFile\<close> (\<open>None\<close>: written); and the runtime's conversion of a number to
  text, \<open>number_text q\<close> for the number nearest to \<open>q\<close>, which the model asks only
  where it does not print the number itself.\<close>

record env =
  get_font_css :: "string \<Rightarrow> string \<Rightarrow> string list \<Rightarrow> error + string"
  tmp_dir :: "error + string"
  writeFile :: "string \<Rightarrow> string \<Rightarrow> error option"
  number_text :: "rat \<Rightarrow> string"

record request =
  req_method :: string
  url :: string
  headers :: "string \<rightharpoonup> string"

text \<open>What \<^verbatim>\<open>get_css\<close> does with its callback: it calls \<^verbatim>\<open>done\<close> with an error or with the
  CSS object, or an exception escapes before \<^verbatim>\<open>done\<close> is called.\<close>

datatype css_done = Done "error + cssObj" | Uncaught error

text \<open>What the responder does with a request: it calls \<^verbatim>\<open>next()\<close>, it throws, or it
  registers \<^verbatim>\<open>setCacheControlHeaders\<close> for the response's headers and pipes the file
  at the given path to the response, through the compressor when the flag is set.\<close>

datatype outcome = CallsNext | Throws error | Serves "string option" bool

subsection \<open>Operations\<close>

definition prepareTmpPath :: "env \<Rightarrow> state \<Rightarrow> (error + string) \<times> state" where
  "prepareTmpPath e st =
     (let create =
        (case tmp_dir e of
           Inl err \<Rightarrow> (Inl err, st)
         | Inr tmpPath \<Rightarrow> (Inr tmpPath, st\<lparr>cssTmpPath := Some tmpPath\<rparr>))
      in case cssTmpPath st of
           None \<Rightarrow> create
         | Some p \<Rightarrow> if p = [] then create else (Inr p, st))"

definition getCacheKey :: "string \<Rightarrow> string \<Rightarrow> string list \<Rightarrow> string" where
  "getCacheKey ua locale fonts = ua @ ''-'' @ locale @ ''-'' @ join_comma fonts"

definition generate_css ::
  "env \<Rightarrow> state \<Rightarrow> string \<Rightarrow> string \<Rightarrow> string list \<Rightarrow> (error + cssObj) \<times> state" where
  "generate_css e st ua locale fonts =
     (let st1 = st\<lparr>generated := (ua, locale, fonts) # generated st\<rparr>
      in case get_font_css e ua locale fonts of
           Inl err \<Rightarrow> (Inl err, st1)
         | Inr cssStr \<Rightarrow> (Inr \<lparr>css = cssStr, cssPath = None\<rparr>, st1))"

text \<open>\<^verbatim>\<open>cacheKey.replace(/\W/g, '-') + ".css"\<close>\<close>

definition css_file_name :: "string \<Rightarrow> string" where
  "css_file_name cacheKey = replace_non_word cacheKey @ ''.css''"

text \<open>\<^verbatim>\<open>path.join(dir, name)\<close> for the path of a directory as \<^verbatim>\<open>tmp.dir\<close> gives it and a
  name without slash.\<close>

definition path_join :: "string \<Rightarrow> string \<Rightarrow> string" where
  "path_join dir name = dir @ ''/'' @ name"

text \<open>The callback given to \<^verbatim>\<open>prepareTmpPath\<close> does not look at its \<^verbatim>\<open>err\<close>: when no
  directory could be made, its \<^verbatim>\<open>cssTmpPath\<close> is \<^verbatim>\<open>undefined\<close> and \<^verbatim>\<open>path.join\<close> throws.\<close>

definition get_css ::
  "env \<Rightarrow> state \<Rightarrow> string \<Rightarrow> string \<Rightarrow> string list \<Rightarrow> css_done \<times> state" where
  "get_css e st ua locale fonts =
     (let cacheKey = getCacheKey ua locale fonts
      in case cssCache st cacheKey of
           Some cacheHit \<Rightarrow> (Done (Inr cacheHit), st)
         | None \<Rightarrow>
             (case generate_css e st ua locale fonts of
                (Inl err, st1) \<Rightarrow> (Done (Inl err), st1)
              | (Inr obj, st1) \<Rightarrow>
                  (case prepareTmpPath e st1 of
                     (Inl err, st2) \<Rightarrow>
                       (Uncaught (TypeError ''Arguments to path.join must be strings''), st2)
                   | (Inr tmpPath, st2) \<Rightarrow>
                       (let file = path_join tmpPath (css_file_name cacheKey)
                        in case writeFile e file (css obj) of
                             Some err \<Rightarrow> (Done (Inl err), st2)
                           | None \<Rightarrow>
                               (let obj' = obj\<lparr>cssPath := Some file\<rparr>
                                in (Done (Inr obj'),
                                    st2\<lparr>disk := (disk st2)(file \<mapsto> css obj),
                                        cssCache := (cssCache st2)(cacheKey \<mapsto> obj')\<rparr>))))))"

text \<open>The callback the responder gives to \<^verbatim>\<open>get_css\<close>.\<close>

definition css_callback :: "css_done \<times> state \<Rightarrow> outcome \<times> state" where
  "css_callback r =
     (case r of
        (Done (Inl err), st) \<Rightarrow>
          if instanceof_InvalidFontError err then (CallsNext, st) else (Throws err, st)
      | (Done (Inr obj), st) \<Rightarrow> (Serves (cssPath obj) (compress st), st)
      | (Uncaught err, st) \<Rightarrow> (Throws err, st))"

text \<open>In the guard \<^verbatim>\<open>ua && locale && fonts\<close> the value of \<^verbatim>\<open>fonts\<close> is an array, which is
  truthy. Where the guard holds the responder returns with the call of \<^verbatim>\<open>get_css\<close>, so
  the \<^verbatim>\<open>next()\<close> at its end is reached on the other paths only.\<close>

definition font_css_responder :: "env \<Rightarrow> state \<Rightarrow> request \<Rightarrow> outcome \<times> state" where
  "font_css_responder e st req =
     (if req_method req = ''GET'' then
        (case re_fonts_exec (url req) of
           None \<Rightarrow> (CallsNext, st)
         | Some (m1, m2) \<Rightarrow>
             (case config st of
                None \<Rightarrow> (Throws (TypeError ''Cannot read property ua of undefined''), st)
              | Some cfg \<Rightarrow>
                  (let ua = (if truthy (options_ua cfg) then options_ua cfg
                             else headers req ''user-agent'');
                       locale = (case m1 of
                                   None \<Rightarrow> ''default''
                                 | Some l \<Rightarrow> if l = [] then ''default'' else l);
                       fonts = split_comma m2
                   in case ua of
                        None \<Rightarrow> (CallsNext, st)
                      | Some u \<Rightarrow>
                          if u \<noteq> [] \<and> locale \<noteq> []
                          then css_callback (get_css e st u locale fonts)
                          else (CallsNext, st))))
      else (CallsNext, st))"

text \<open>\<^verbatim>\<open>name.toLowerCase()\<close> on code units below 256: the letters \<^verbatim>\<open>A\<close> to \<^verbatim>\<open>Z\<close> and the
  capital letters of Latin-1 (192 to 222 without the multiplication sign 215) move up
  by 32.\<close>

definition lower_char :: "char \<Rightarrow> char" where
  "lower_char c =
     (let n = (of_char c :: nat)
      in if (65 \<le> n \<and> n \<le> 90) \<or> (192 \<le> n \<and> n \<le> 222 \<and> n \<noteq> 215)
         then char_of (n + 32) else c)"

definition toLowerCase :: "string \<Rightarrow> string" where
  "toLowerCase s = map lower_char s"

text \<open>The headers of a response, kept under their names in lower case:
  \<^verbatim>\<open>res.getHeader(name)\<close> and \<^verbatim>\<open>res.setHeader(name, value)\<close> do not tell the cases of a name
  apart.\<close>

definition getHeader :: "(string \<rightharpoonup> string) \<Rightarrow> string \<Rightarrow> string option" where
  "getHeader hdrs name = hdrs (toLowerCase name)"

definition setHeader :: "(string \<rightharpoonup> string) \<Rightarrow> string \<Rightarrow> string \<Rightarrow> (string \<rightharpoonup> string)" where
  "setHeader hdrs name v = hdrs(toLowerCase name \<mapsto> v)"

text \<open>The text of \<^verbatim>\<open>maxAge / 1000\<close>: printed here when \<^verbatim>\<open>maxAge\<close> is an integer of magnitude
  below \<open>10^15\<close>, and the runtime's otherwise.\<close>

definition max_age_text :: "env \<Rightarrow> rat \<Rightarrow> string" where
  "max_age_text e x =
     (if of_int \<lfloor>x\<rfloor> = x \<and> \<bar>\<lfloor>x\<rfloor>\<bar> < 10 ^ 15 then show_int_div_1000 \<lfloor>x\<rfloor>
      else number_text e (x / 1000))"

text \<open>\<open>now\<close> is \<^verbatim>\<open>new Date().toUTCString()\<close>, \<open>hdrs\<close> the headers of the response.
  \<^verbatim>\<open>if (maxAge)\<close> tests the number for not being zero, whatever its sign;
  \<^verbatim>\<open>!res.getHeader(name)\<close> holds for a header that is not there and for one whose value is
  the empty string.\<close>

definition setCacheControlHeaders ::
  "env \<Rightarrow> state \<Rightarrow> string \<Rightarrow> (string \<rightharpoonup> string) \<Rightarrow> (string \<rightharpoonup> string)" where
  "setCacheControlHeaders e st now hdrs =
     (if maxAge st \<noteq> 0 then
        (let h1 = (if \<not> truthy (getHeader hdrs ''Date'') then setHeader hdrs ''Date'' now
                   else hdrs)
         in if \<not> truthy (getHeader h1 ''Cache-Control'')
            then setHeader h1 ''Cache-Control''
                   (''public, max-age='' @ max_age_text e (maxAge st))
            else h1)
      else hdrs)"

text \<open>What the head of \<^verbatim>\<open>font_css_responder\<close> takes from a request (the test of the
  method and of the URL, \<^verbatim>\<open>locale\<close> with its default, \<^verbatim>\<open>fonts\<close> split at the commas):
  \<open>None\<close> when the request is not a font CSS request.\<close>

definition font_request :: "request \<Rightarrow> (string \<times> string list) option" where
  "font_request req =
     (if req_method req = ''GET'' then
        (case re_fonts_exec (url req) of
           None \<Rightarrow> None
         | Some (m1, m2) \<Rightarrow>
             Some (case m1 of
                     None \<Rightarrow> ''default''
                   | Some l \<Rightarrow> if l = [] then ''default'' else l,
                   split_comma m2))
      else None)"

text \<open>\<^verbatim>\<open>config.ua || req.headers['user-agent']\<close>\<close>

definition request_ua :: "options \<Rightarrow> request \<Rightarrow> string option" where
  "request_ua cfg req =
     (if truthy (options_ua cfg) then options_ua cfg else headers req ''user-agent'')"

subsection \<open>A configuration to run the model on\<close>

text \<open>A generator that knows every font but \<^verbatim>\<open>Bogus\<close>, a temporary directory and a disk
  that takes every file (the runtime's number texts are not asked for in the runs
  below, and stand as \<^verbatim>\<open>NaN\<close>); the module after \<^verbatim>\<open>setup\<close> with a max-age of one hour.\<close>

definition example_env :: env where
  "example_env =
     \<lparr>get_font_css = (\<lambda>ua locale fonts.
         if ''Bogus'' \<in> set fonts then Inl (InvalidFontError ''Bogus'')
         else Inr ''@font-face{}''),
      tmp_dir = Inr ''/tmp/fonts'',
      writeFile = (\<lambda>file text. None),
      number_text = (\<lambda>q. ''NaN'')\<rparr>"

text \<open>The same with a generator that breaks down, and with a disk that is full.\<close>

definition broken_generator_env :: env where
  "broken_generator_env =
     example_env\<lparr>get_font_css := (\<lambda>ua locale fonts. Inl (GenerationError ''no fonts''))\<rparr>"

definition full_disk_env :: env where
  "full_disk_env = example_env\<lparr>writeFile := (\<lambda>file text. Some (IOError ''ENOSPC''))\<rparr>"

definition example_state :: state where
  "example_state =
     \<lparr>config = Some \<lparr>options_ua = None\<rparr>,
      maxAge = 3600000,
      compress = False,
      cssCache = Map.empty,
      cssTmpPath = None,
      disk = Map.empty,
      generated = []\<rparr>"

definition example_request :: "string \<Rightarrow> string \<Rightarrow> request" where
  "example_request m u =
     \<lparr>req_method = m, url = u, headers = [''user-agent'' \<mapsto> ''Mozilla/5.0'']\<rparr>"

subsection \<open>Auxiliary notions\<close>

text \<open>The number of slashes of a string.\<close>

definition slashes :: "string \<Rightarrow> nat" where
  "slashes s = length (filter (\<lambda>x. x = CHR ''/'') s)"

section \<open>Properties\<close>

subsection \<open>The matcher\<close>

text \<open>A class \<^verbatim>\<open>[^c]+\<close> whose continuation fails on every input that does not start with
  \<open>c\<close> takes the longest run: all shorter alternatives fail.\<close>

lemma re_lit_end:
  "re_lit l s (\<lambda>s3. if s3 = [] then Some v else None) = (if s = l then Some v else None)"
  by (induction l s "\<lambda>s3::string. if s3 = [] then Some v else None" rule: re_lit.induct) auto

lemma re_star_not_greedy:
  assumes "\<And>a x r. x \<noteq> c \<Longrightarrow> k a (x # r) = None"
  shows "re_star_not c acc s k = k (acc @ takeWhile (\<lambda>x. x \<noteq> c) s) (dropWhile (\<lambda>x. x \<noteq> c) s)"
proof (induction s arbitrary: acc)
  case Nil
  show ?case by simp
next
  case (Cons x xs)
  show ?case
  proof (cases "x = c")
    case True
    then show ?thesis by simp
  next
    case False
    have "k acc (x # xs) = None" using assms False by simp
    with False Cons [of "acc @ [x]"] show ?thesis
      by (simp split: option.split)
  qed
qed

lemma re_plus_not_greedy:
  assumes "\<And>a x r. x \<noteq> c \<Longrightarrow> k a (x # r) = None"
  shows "re_plus_not c s k =
    (if takeWhile (\<lambda>x. x \<noteq> c) s = [] then None
     else k (takeWhile (\<lambda>x. x \<noteq> c) s) (dropWhile (\<lambda>x. x \<noteq> c) s))"
proof (cases s)
  case Nil
  then show ?thesis by (simp add: re_plus_not_def)
next
  case (Cons x xs)
  have "re_star_not c [x] xs k = k ([x] @ takeWhile (\<lambda>x. x \<noteq> c) xs) (dropWhile (\<lambda>x. x \<noteq> c) xs)"
    by (rule re_star_not_greedy) (rule assms)
  with Cons show ?thesis by (simp add: re_plus_not_def)
qed

lemma re_fonts_tail_eq:
  "re_fonts_tail m1 s =
     (case s of [] \<Rightarrow> None
      | x # s1 \<Rightarrow>
          if x = CHR ''/'' \<and> takeWhile (\<lambda>x. x \<noteq> CHR ''/'') s1 \<noteq> []
             \<and> dropWhile (\<lambda>x. x \<noteq> CHR ''/'') s1 = ''/fonts.css''
          then Some (m1, takeWhile (\<lambda>x. x \<noteq> CHR ''/'') s1) else None)"
proof (cases s)
  case Nil
  then show ?thesis by (simp add: re_fonts_tail_def)
next
  case (Cons x s1)
  let ?k = "\<lambda>m2 s2. if s2 = ''/fonts.css'' then Some (m1, m2) else None"
  have g: "re_plus_not CHR ''/'' s1 ?k =
    (if takeWhile (\<lambda>x. x \<noteq> CHR ''/'') s1 = [] then None
     else ?k (takeWhile (\<lambda>x. x \<noteq> CHR ''/'') s1) (dropWhile (\<lambda>x. x \<noteq> CHR ''/'') s1))"
    by (rule re_plus_not_greedy) simp
  show ?thesis
    unfolding re_fonts_tail_def Cons re_lit_end
    by (simp add: g)
qed

lemma re_fonts_tail_fails: "x \<noteq> CHR ''/'' \<Longrightarrow> re_fonts_tail m1 (x # r) = None"
  by (simp add: re_fonts_tail_eq)

lemma re_fonts_at_eq:
  "re_fonts_at s =
     (case s of [] \<Rightarrow> None
      | x # s1 \<Rightarrow>
          if x = CHR ''/'' \<and> takeWhile (\<lambda>x. x \<noteq> CHR ''/'') s1 \<noteq> [] then
            (case re_fonts_tail (Some (takeWhile (\<lambda>x. x \<noteq> CHR ''/'') s1))
                    (dropWhile (\<lambda>x. x \<noteq> CHR ''/'') s1) of
               Some m \<Rightarrow> Some m
             | None \<Rightarrow> re_fonts_tail None s)
          else re_fonts_tail None s)"
proof (cases s)
  case Nil
  then show ?thesis by (simp add: re_fonts_at_def re_fonts_tail_eq)
next
  case (Cons x s1)
  let ?k = "\<lambda>m1 s2. re_fonts_tail (Some m1) s2"
  have g: "re_plus_not CHR ''/'' s1 ?k =
    (if takeWhile (\<lambda>x. x \<noteq> CHR ''/'') s1 = [] then None
     else ?k (takeWhile (\<lambda>x. x \<noteq> CHR ''/'') s1) (dropWhile (\<lambda>x. x \<noteq> CHR ''/'') s1))"
    by (rule re_plus_not_greedy) (rule re_fonts_tail_fails)
  show ?thesis
    unfolding re_fonts_at_def Cons
    by (simp add: g)
qed

text \<open>A run up to the next separator.\<close>

lemma takeWhile_segment: "c \<notin> set X \<Longrightarrow> takeWhile (\<lambda>x. x \<noteq> c) (X @ c # r) = X"
  by (induction X) auto

lemma dropWhile_segment: "c \<notin> set X \<Longrightarrow> dropWhile (\<lambda>x. x \<noteq> c) (X @ c # r) = c # r"
  by (induction X) auto

text \<open>The shape of the inputs on which the pattern matches at a given position.\<close>

lemma re_fonts_tail_segment:
  assumes "X \<noteq> []" "CHR ''/'' \<notin> set X"
  shows "re_fonts_tail m1 (CHR ''/'' # X @ ''/fonts.css'') = Some (m1, X)"
  using assms
  by (simp add: re_fonts_tail_eq takeWhile_segment [of "CHR ''/''" X "''fonts.css''", simplified]
      dropWhile_segment [of "CHR ''/''" X "''fonts.css''", simplified])

lemma re_fonts_tail_Some:
  assumes "re_fonts_tail m1 s = Some r"
  shows "\<exists>X. s = CHR ''/'' # X @ ''/fonts.css'' \<and> X \<noteq> [] \<and> CHR ''/'' \<notin> set X \<and> r = (m1, X)"
proof (cases s)
  case Nil
  with assms show ?thesis by (simp add: re_fonts_tail_eq)
next
  case (Cons x s1)
  let ?X = "takeWhile (\<lambda>x. x \<noteq> CHR ''/'') s1"
  from assms Cons have x: "x = CHR ''/''" and ne: "?X \<noteq> []"
    and d: "dropWhile (\<lambda>x. x \<noteq> CHR ''/'') s1 = ''/fonts.css''" and r: "r = (m1, ?X)"
    by (auto simp: re_fonts_tail_eq split: if_splits)
  have "s1 = ?X @ dropWhile (\<lambda>x. x \<noteq> CHR ''/'') s1" by simp
  with d have s1: "s1 = ?X @ ''/fonts.css''" by simp
  have "CHR ''/'' \<notin> set ?X" by (auto dest: set_takeWhileD)
  with Cons x ne r s1 show ?thesis by blast
qed

lemma re_fonts_at_locale:
  assumes "Y \<noteq> []" "CHR ''/'' \<notin> set Y" "X \<noteq> []" "CHR ''/'' \<notin> set X"
  shows "re_fonts_at (CHR ''/'' # Y @ CHR ''/'' # X @ ''/fonts.css'') = Some (Some Y, X)"
  using assms
  by (simp add: re_fonts_at_eq takeWhile_segment dropWhile_segment re_fonts_tail_segment)

lemma re_fonts_at_no_locale:
  assumes "X \<noteq> []" "CHR ''/'' \<notin> set X"
  shows "re_fonts_at (CHR ''/'' # X @ ''/fonts.css'') = Some (None, X)"
proof -
  have "re_fonts_tail (Some X) ''/fonts.css'' = None"
    by (simp add: re_fonts_tail_eq)
  with assms show ?thesis
    by (simp add: re_fonts_at_eq re_fonts_tail_segment
        takeWhile_segment [of "CHR ''/''" X "''fonts.css''", simplified]
        dropWhile_segment [of "CHR ''/''" X "''fonts.css''", simplified])
qed

lemma re_fonts_at_Some:
  assumes "re_fonts_at s = Some r"
  shows "(\<exists>Y X. s = CHR ''/'' # Y @ CHR ''/'' # X @ ''/fonts.css'' \<and> Y \<noteq> [] \<and> CHR ''/'' \<notin> set Y
              \<and> X \<noteq> [] \<and> CHR ''/'' \<notin> set X \<and> r = (Some Y, X))
       \<or> (\<exists>X. s = CHR ''/'' # X @ ''/fonts.css'' \<and> X \<noteq> [] \<and> CHR ''/'' \<notin> set X \<and> r = (None, X))"
proof (cases s)
  case Nil
  with assms show ?thesis by (simp add: re_fonts_at_eq)
next
  case (Cons x s1)
  let ?Y = "takeWhile (\<lambda>x. x \<noteq> CHR ''/'') s1"
  let ?R = "dropWhile (\<lambda>x. x \<noteq> CHR ''/'') s1"
  show ?thesis
  proof (cases "x = CHR ''/'' \<and> ?Y \<noteq> [] \<and> re_fonts_tail (Some ?Y) ?R = Some r")
    case True
    then obtain X where R: "?R = CHR ''/'' # X @ ''/fonts.css''" and X: "X \<noteq> []" "CHR ''/'' \<notin> set X"
      and r: "r = (Some ?Y, X)"
      using re_fonts_tail_Some [of "Some ?Y" ?R r] by blast
    have "s1 = ?Y @ ?R" by simp
    with R have "s = CHR ''/'' # ?Y @ CHR ''/'' # X @ ''/fonts.css''"
      using Cons True by simp
    moreover have "CHR ''/'' \<notin> set ?Y" by (auto dest: set_takeWhileD)
    ultimately show ?thesis using True X r by blast
  next
    case False
    with assms Cons have "re_fonts_tail None s = Some r"
      by (auto simp: re_fonts_at_eq split: if_splits option.splits)
    then show ?thesis using re_fonts_tail_Some [of None s r] by blast
  qed
qed


text \<open>A match at a position has at most three slashes after it, so the leftmost
  match of a URL that ends in \<^verbatim>\<open>/locale/fonts/fonts.css\<close> starts at the third slash from the
  end.\<close>

lemma slashes_simps [simp]:
  "slashes [] = 0"
  "slashes (x # xs) = (if x = CHR ''/'' then Suc (slashes xs) else slashes xs)"
  "slashes (xs @ ys) = slashes xs + slashes ys"
  by (simp_all add: slashes_def)

lemma slashes_none: "CHR ''/'' \<notin> set X \<Longrightarrow> slashes X = 0"
  by (induction X) auto

lemma re_fonts_at_slashes:
  assumes "re_fonts_at s = Some r"
  shows "slashes s \<le> 3 \<and> (\<exists>t. s = CHR ''/'' # t)"
  using re_fonts_at_Some [OF assms] by (auto simp: slashes_none)

lemma re_fonts_exec_suffix:
  assumes "Y \<noteq> []" "CHR ''/'' \<notin> set Y" "X \<noteq> []" "CHR ''/'' \<notin> set X"
  shows "re_fonts_exec (p @ CHR ''/'' # Y @ CHR ''/'' # X @ ''/fonts.css'') = Some (Some Y, X)"
proof (induction p)
  case Nil
  show ?case using re_fonts_at_locale [OF assms] by simp
next
  case (Cons c p)
  let ?t = "CHR ''/'' # Y @ CHR ''/'' # X @ ''/fonts.css''"
  have "re_fonts_at (c # p @ ?t) = None"
  proof (cases "re_fonts_at (c # p @ ?t)")
    case None
    then show ?thesis .
  next
    case (Some r)
    from re_fonts_at_slashes [OF Some] have "slashes (c # p @ ?t) \<le> 3" and "c = CHR ''/''"
      by auto
    then show ?thesis by simp
  qed
  with Cons show ?case by simp
qed

subsection \<open>The head of the responder\<close>

text \<open>The responder is \<open>font_request\<close> followed by the resolution of the user agent and
  the call of \<^verbatim>\<open>get_css\<close>; the test of \<^verbatim>\<open>locale\<close> never fails, as the locale is never
  empty.\<close>

lemma font_css_responder_request:
  "font_css_responder e st req =
     (case font_request req of
        None \<Rightarrow> (CallsNext, st)
      | Some (locale, fonts) \<Rightarrow>
          (case config st of
             None \<Rightarrow> (Throws (TypeError ''Cannot read property ua of undefined''), st)
           | Some cfg \<Rightarrow>
               (case request_ua cfg req of
                  None \<Rightarrow> (CallsNext, st)
                | Some u \<Rightarrow>
                    if u \<noteq> [] then css_callback (get_css e st u locale fonts)
                    else (CallsNext, st))))"
  by (simp add: font_css_responder_def font_request_def request_ua_def Let_def
      split: option.split prod.split)

lemma font_request_suffix:
  assumes "req_method req = ''GET''"
    and "url req = p @ ''/'' @ seg1 @ ''/'' @ seg2 @ ''/fonts.css''"
    and "seg1 \<noteq> []" "CHR ''/'' \<notin> set seg1" "seg2 \<noteq> []" "CHR ''/'' \<notin> set seg2"
  shows "font_request req = Some (seg1, split_comma seg2)"
  using assms re_fonts_exec_suffix [of seg1 seg2 p]
  by (simp add: font_request_def)

lemma font_request_no_locale:
  assumes "req_method req = ''GET''"
    and "url req = ''/'' @ seg2 @ ''/fonts.css''"
    and "seg2 \<noteq> []" "CHR ''/'' \<notin> set seg2"
  shows "font_request req = Some (''default'', split_comma seg2)"
  using assms re_fonts_at_no_locale [of seg2]
  by (simp add: font_request_def)

subsection \<open>Runs of the model\<close>

lemma is_word_char_simps:
  "is_word_char c = (c \<in> set ''abcdefghijklmnopqrstuvwxyzABCDEFGHIJKLMNOPQRSTUVWXYZ0123456789_'')"
  by (simp add: is_word_char_def word_chars_def)

lemma get_css_example:
  "get_css example_env example_state ''Mozilla/5.0'' ''en'' [''Arial'', ''Roboto''] =
     (Done (Inr \<lparr>css = ''@font-face{}'',
                  cssPath = Some ''/tmp/fonts/Mozilla-5-0-en-Arial-Roboto.css''\<rparr>),
      example_state
        \<lparr>cssCache := [''Mozilla/5.0-en-Arial,Roboto'' \<mapsto>
            \<lparr>css = ''@font-face{}'',
             cssPath = Some ''/tmp/fonts/Mozilla-5-0-en-Arial-Roboto.css''\<rparr>],
         cssTmpPath := Some ''/tmp/fonts'',
         disk := [''/tmp/fonts/Mozilla-5-0-en-Arial-Roboto.css'' \<mapsto> ''@font-face{}''],
         generated := [(''Mozilla/5.0'', ''en'', [''Arial'', ''Roboto''])]\<rparr>)"
  by (simp add: get_css_def getCacheKey_def example_state_def example_env_def generate_css_def
      prepareTmpPath_def path_join_def css_file_name_def replace_non_word_def is_word_char_simps
      Let_def)

lemma get_css_example_extra:
  "get_css example_env example_state ''Mozilla/5.0'' ''en'' [''Arial''] =
     (Done (Inr \<lparr>css = ''@font-face{}'', cssPath = Some ''/tmp/fonts/Mozilla-5-0-en-Arial.css''\<rparr>),
      example_state
        \<lparr>cssCache := [''Mozilla/5.0-en-Arial'' \<mapsto>
            \<lparr>css = ''@font-face{}'', cssPath = Some ''/tmp/fonts/Mozilla-5-0-en-Arial.css''\<rparr>],
         cssTmpPath := Some ''/tmp/fonts'',
         disk := [''/tmp/fonts/Mozilla-5-0-en-Arial.css'' \<mapsto> ''@font-face{}''],
         generated := [(''Mozilla/5.0'', ''en'', [''Arial''])]\<rparr>)"
  by (simp add: get_css_def getCacheKey_def example_state_def example_env_def generate_css_def
      prepareTmpPath_def path_join_def css_file_name_def replace_non_word_def is_word_char_simps
      Let_def)

subsection \<open>The cache\<close>

lemma prepareTmpPath_cssCache:
  "prepareTmpPath e st = (r, st') \<Longrightarrow> cssCache st' = cssCache st \<and> generated st' = generated st
     \<and> disk st' = disk st"
  by (auto simp: prepareTmpPath_def Let_def split: option.splits sum.splits if_splits)

lemma prepareTmpPath_generated:
  "prepareTmpPath e (st\<lparr>generated := g\<rparr>) =
     (fst (prepareTmpPath e st), (snd (prepareTmpPath e st))\<lparr>generated := g\<rparr>)"
  by (simp add: prepareTmpPath_def Let_def split: option.splits sum.splits)

lemma get_css_hit:
  "cssCache st (getCacheKey ua locale fonts) = Some obj \<Longrightarrow>
     get_css e st ua locale fonts = (Done (Inr obj), st)"
  by (simp add: get_css_def)

lemma get_css_caches:
  assumes "get_css e st ua locale fonts = (Done (Inr obj), st1)"
  shows "cssCache st1 (getCacheKey ua locale fonts) = Some obj"
proof (cases "cssCache st (getCacheKey ua locale fonts)")
  case (Some hit)
  with assms show ?thesis by (simp add: get_css_def)
next
  case None
  with assms show ?thesis
    by (auto simp: get_css_def Let_def split: prod.splits sum.splits option.splits)
qed

lemma get_css_example_errors:
  "get_css example_env example_state ''Mozilla/5.0'' ''en'' [''Bogus''] =
     (Done (Inl (InvalidFontError ''Bogus'')),
      example_state\<lparr>generated := [(''Mozilla/5.0'', ''en'', [''Bogus''])]\<rparr>)"
  "get_css broken_generator_env example_state ''Mozilla/5.0'' ''en'' [''Arial''] =
     (Done (Inl (GenerationError ''no fonts'')),
      example_state\<lparr>generated := [(''Mozilla/5.0'', ''en'', [''Arial''])]\<rparr>)"
  "get_css full_disk_env example_state ''Mozilla/5.0'' ''en'' [''Arial''] =
     (Done (Inl (IOError ''ENOSPC'')),
      example_state\<lparr>cssTmpPath := Some ''/tmp/fonts'',
        generated := [(''Mozilla/5.0'', ''en'', [''Arial''])]\<rparr>)"
  by (simp_all add: get_css_def getCacheKey_def example_state_def example_env_def generate_css_def
      broken_generator_env_def full_disk_env_def prepareTmpPath_def Let_def)

subsection \<open>Cache keys and file names\<close>

text \<open>A text is cut at its first separator in one way only.\<close>

lemma append_sep_inject:
  assumes "c \<notin> set a" "c \<notin> set b" "a @ c # r = b @ c # s"
  shows "a = b \<and> r = s"
  using assms
proof (induction a arbitrary: b)
  case Nil
  then show ?case by (cases b) auto
next
  case (Cons x a)
  then show ?case by (cases b) auto
qed

lemma join_comma_Cons:
  "join_comma (x # xs) = (if xs = [] then x else x @ CHR '','' # join_comma xs)"
  by (cases xs) simp_all

lemma join_comma_inject:
  assumes "xs \<noteq> []" "ys \<noteq> []"
    and "list_all (\<lambda>f. CHR '','' \<notin> set f) xs" "list_all (\<lambda>f. CHR '','' \<notin> set f) ys"
    and "join_comma xs = join_comma ys"
  shows "xs = ys"
  using assms
proof (induction xs arbitrary: ys)
  case Nil
  then show ?case by simp
next
  case (Cons x xs)
  from Cons.prems obtain y ys' where ys: "ys = y # ys'" by (cases ys) auto
  from Cons.prems ys have nx: "CHR '','' \<notin> set x" and ny: "CHR '','' \<notin> set y" by auto
  show ?case
  proof (cases "xs = []")
    case True
    show ?thesis
    proof (cases "ys' = []")
      case True
      with \<open>xs = []\<close> Cons.prems ys show ?thesis by simp
    next
      case False
      with True Cons.prems ys have "x = y @ CHR '','' # join_comma ys'"
        by (simp add: join_comma_Cons)
      with nx show ?thesis by auto
    qed
  next
    case False
    show ?thesis
    proof (cases "ys' = []")
      case True
      with False Cons.prems ys have "y = x @ CHR '','' # join_comma xs"
        by (simp add: join_comma_Cons)
      with ny show ?thesis by auto
    next
      case ne: False
      from False ne Cons.prems ys
      have "x @ CHR '','' # join_comma xs = y @ CHR '','' # join_comma ys'"
        by (simp add: join_comma_Cons)
      from append_sep_inject [OF nx ny this] have "x = y" "join_comma xs = join_comma ys'"
        by auto
      moreover from Cons.prems ys have "list_all (\<lambda>f. CHR '','' \<notin> set f) xs"
        "list_all (\<lambda>f. CHR '','' \<notin> set f) ys'" by auto
      ultimately show ?thesis using Cons.IH [OF False ne] ys by simp
    qed
  qed
qed

lemma split_on_nonempty: "split_on c s \<noteq> []"
  by (induction s) (auto split: list.splits)

lemma split_on_sep_free: "list_all (\<lambda>f. c \<notin> set f) (split_on c s)"
  by (induction s) (auto split: list.splits)

text \<open>A list made by \<^verbatim>\<open>split(',')\<close> is never empty and has no comma in its pieces, and
  joining it gives the text back.\<close>

lemma split_comma_font_list:
  "split_comma s \<noteq> [] \<and> list_all (\<lambda>f. CHR '','' \<notin> set f) (split_comma s)"
  by (simp add: split_comma_def split_on_nonempty split_on_sep_free)

lemma join_comma_split_comma: "join_comma (split_comma s) = s"
  unfolding split_comma_def
proof (induction s)
  case Nil
  show ?case by simp
next
  case (Cons x xs)
  obtain w ws where w: "split_on CHR '','' xs = w # ws"
    using split_on_nonempty [of "CHR '',''" xs] by (cases "split_on CHR '','' xs") auto
  with Cons show ?case by (auto simp: join_comma_Cons split: if_splits)
qed

lemma getCacheKey_inject:
  assumes "CHR ''-'' \<notin> set ua1" "CHR ''-'' \<notin> set ua2"
    and "CHR ''-'' \<notin> set locale1" "CHR ''-'' \<notin> set locale2"
    and "fonts1 \<noteq> []" "fonts2 \<noteq> []"
    and "list_all (\<lambda>f. CHR '','' \<notin> set f) fonts1" "list_all (\<lambda>f. CHR '','' \<notin> set f) fonts2"
    and "getCacheKey ua1 locale1 fonts1 = getCacheKey ua2 locale2 fonts2"
  shows "ua1 = ua2 \<and> locale1 = locale2 \<and> fonts1 = fonts2"
proof -
  from assms(9) have "ua1 @ CHR ''-'' # (locale1 @ CHR ''-'' # join_comma fonts1)
      = ua2 @ CHR ''-'' # (locale2 @ CHR ''-'' # join_comma fonts2)"
    by (simp add: getCacheKey_def)
  from append_sep_inject [OF assms(1,2) this]
  have u: "ua1 = ua2" and "locale1 @ CHR ''-'' # join_comma fonts1 = locale2 @ CHR ''-'' # join_comma fonts2"
    by auto
  from append_sep_inject [OF assms(3,4) this(2)]
  have l: "locale1 = locale2" and "join_comma fonts1 = join_comma fonts2"
    by auto
  from join_comma_inject [OF assms(5-8) this(2)] u l show ?thesis by simp
qed

lemma get_css_other_key:
  assumes "getCacheKey ua locale fonts \<noteq> k"
  shows "cssCache (snd (get_css e st ua locale fonts)) k = cssCache st k"
proof (cases "cssCache st (getCacheKey ua locale fonts)")
  case (Some hit)
  then show ?thesis by (simp add: get_css_def)
next
  case None
  obtain r st2 where p: "prepareTmpPath e (st\<lparr>generated := (ua, locale, fonts) # generated st\<rparr>) = (r, st2)"
    by (cases "prepareTmpPath e (st\<lparr>generated := (ua, locale, fonts) # generated st\<rparr>)")
  from prepareTmpPath_cssCache [OF p] have "cssCache st2 = cssCache st" by simp
  with None p assms show ?thesis
    by (simp add: get_css_def generate_css_def Let_def split: sum.split option.split)
qed

text \<open>What a cache miss does, step by step.\<close>

lemma get_css_miss:
  assumes "cssCache st (getCacheKey ua locale fonts) = None"
  shows "get_css e st ua locale fonts =
     (case get_font_css e ua locale fonts of
        Inl err \<Rightarrow> (Done (Inl err), st\<lparr>generated := (ua, locale, fonts) # generated st\<rparr>)
      | Inr cssStr \<Rightarrow>
          (case prepareTmpPath e (st\<lparr>generated := (ua, locale, fonts) # generated st\<rparr>) of
             (Inl err, st2) \<Rightarrow>
               (Uncaught (TypeError ''Arguments to path.join must be strings''), st2)
           | (Inr tmpPath, st2) \<Rightarrow>
               (case writeFile e (path_join tmpPath (css_file_name (getCacheKey ua locale fonts))) cssStr of
                  Some err \<Rightarrow> (Done (Inl err), st2)
                | None \<Rightarrow>
                    (Done (Inr \<lparr>css = cssStr,
                        cssPath = Some (path_join tmpPath (css_file_name (getCacheKey ua locale fonts)))\<rparr>),
                     st2\<lparr>disk := (disk st2)(path_join tmpPath (css_file_name (getCacheKey ua locale fonts)) \<mapsto> cssStr),
                         cssCache := (cssCache st2)(getCacheKey ua locale fonts \<mapsto>
                           \<lparr>css = cssStr,
                            cssPath = Some (path_join tmpPath (css_file_name (getCacheKey ua locale fonts)))\<rparr>)\<rparr>))))"
  using assms
  by (simp add: get_css_def generate_css_def Let_def split: sum.split prod.split option.split)

lemma prepareTmpPath_Inr:
  assumes "prepareTmpPath e st = (Inr tmpPath, st2)"
  shows "cssTmpPath st2 = Some tmpPath \<and> (truthy (cssTmpPath st) \<longrightarrow> st2 = st)"
proof (cases "cssTmpPath st")
  case None
  with assms show ?thesis
    by (cases "tmp_dir e") (auto simp: prepareTmpPath_def truthy_def)
next
  case (Some p)
  with assms show ?thesis
    by (cases "tmp_dir e"; cases "p = []") (auto simp: prepareTmpPath_def truthy_def)
qed

lemma get_css_miss_Inr:
  assumes "cssCache st (getCacheKey ua locale fonts) = None"
    and "get_css e st ua locale fonts = (Done (Inr obj), st')"
  shows "\<exists>cssStr tmpPath st2.
      prepareTmpPath e (st\<lparr>generated := (ua, locale, fonts) # generated st\<rparr>) = (Inr tmpPath, st2)
      \<and> obj = \<lparr>css = cssStr,
           cssPath = Some (path_join tmpPath (css_file_name (getCacheKey ua locale fonts)))\<rparr>
      \<and> st' = st2\<lparr>disk := (disk st2)(path_join tmpPath (css_file_name (getCacheKey ua locale fonts)) \<mapsto> cssStr),
           cssCache := (cssCache st2)(getCacheKey ua locale fonts \<mapsto> obj)\<rparr>"
proof (cases "get_font_css e ua locale fonts")
  case (Inl err)
  with assms show ?thesis by (simp add: get_css_miss)
next
  case (Inr cssStr)
  let ?st1 = "st\<lparr>generated := (ua, locale, fonts) # generated st\<rparr>"
  obtain r st2 where p: "prepareTmpPath e ?st1 = (r, st2)"
    by (cases "prepareTmpPath e ?st1")
  show ?thesis
  proof (cases r)
    case (Inl err)
    with assms Inr p show ?thesis by (simp add: get_css_miss)
  next
    case r: (Inr tmpPath)
    show ?thesis
    proof (cases "writeFile e (path_join tmpPath (css_file_name (getCacheKey ua locale fonts))) cssStr")
      case None
      let ?file = "path_join tmpPath (css_file_name (getCacheKey ua locale fonts))"
      from assms(2)
      have "obj = \<lparr>css = cssStr, cssPath = Some ?file\<rparr>"
        and "st' = st2\<lparr>disk := (disk st2)(?file \<mapsto> cssStr),
           cssCache := (cssCache st2)(getCacheKey ua locale fonts \<mapsto>
              \<lparr>css = cssStr, cssPath = Some ?file\<rparr>)\<rparr>"
        by (auto simp add: get_css_miss [OF assms(1)] Inr p r None)
      with p r show ?thesis by blast
    next
      case (Some err)
      from assms(2) show ?thesis
        by (simp add: get_css_miss [OF assms(1)] Inr p r Some)
    qed
  qed
qed

lemma replace_non_word_clean:
  "list_all (\<lambda>c. is_word_char c \<or> c = CHR ''-'') k \<Longrightarrow> replace_non_word k = k"
  by (induction k) (auto simp: replace_non_word_def)

lemma get_css_example_space:
  "get_css example_env example_state ''Mozilla 5.0'' ''en'' [''Arial''] =
     (Done (Inr \<lparr>css = ''@font-face{}'', cssPath = Some ''/tmp/fonts/Mozilla-5-0-en-Arial.css''\<rparr>),
      example_state
        \<lparr>cssCache := [''Mozilla 5.0-en-Arial'' \<mapsto>
            \<lparr>css = ''@font-face{}'', cssPath = Some ''/tmp/fonts/Mozilla-5-0-en-Arial.css''\<rparr>],
         cssTmpPath := Some ''/tmp/fonts'',
         disk := [''/tmp/fonts/Mozilla-5-0-en-Arial.css'' \<mapsto> ''@font-face{}''],
         generated := [(''Mozilla 5.0'', ''en'', [''Arial''])]\<rparr>)"
  by (simp add: get_css_def getCacheKey_def example_state_def example_env_def generate_css_def
      prepareTmpPath_def path_join_def css_file_name_def replace_non_word_def is_word_char_simps
      Let_def)

subsection \<open>The cache control headers\<close>

lemma toLowerCase_header_names:
  "toLowerCase ''Date'' = ''date''"
  "toLowerCase ''Cache-Control'' = ''cache-control''"
  "toLowerCase ''cache-control'' = ''cache-control''"
  "toLowerCase ''Content-Type'' = ''content-type''"
  by code_simp+

lemma getHeader_setHeader:
  "getHeader (setHeader hdrs n v) n' =
     (if toLowerCase n' = toLowerCase n then Some v else getHeader hdrs n')"
  by (simp add: getHeader_def setHeader_def)

lemma getHeader_empty: "getHeader Map.empty n = None"
  by (simp add: getHeader_def)

lemma getHeader_same_name:
  "toLowerCase n = toLowerCase n' \<Longrightarrow> getHeader hdrs n = getHeader hdrs n'"
  by (simp add: getHeader_def)

lemma max_age_text_int:
  "\<bar>m\<bar> < 10 ^ 15 \<Longrightarrow> max_age_text e (of_int m) = show_int_div_1000 m"
  by (simp add: max_age_text_def)

lemma show_int_div_1000_whole:
  assumes "0 \<le> m" and "m mod 1000 = 0"
  shows "show_int_div_1000 m = show_nat (nat (m div 1000))"
proof -
  from assms have "int (nat m mod 1000) = 0"
    by (simp add: zmod_int)
  then have "nat m mod 1000 = 0"
    by simp
  moreover from assms have "int (nat m div 1000) = m div 1000"
    by (simp add: zdiv_int)
  then have "nat m div 1000 = nat (m div 1000)"
    by simp
  ultimately show ?thesis
    using assms by (simp add: show_int_div_1000_def show_div_1000_def)
qed

lemma show_nat_3600: "show_nat 3600 = ''3600''"
  by code_simp

lemma show_nat_one: "show_nat (Suc 0) = ''1''"
  by (simp add: show_nat.simps digit_char_def)

lemma show_int_div_1000_examples:
  "show_int_div_1000 1500 = ''1.5''"
  "show_int_div_1000 (- 1500) = ''-1.5''"
  "show_int_div_1000 (- 1000) = ''-1''"
  "show_int_div_1000 3600000 = ''3600''"
  by (simp_all add: show_int_div_1000_def show_div_1000_def show_millis_fraction_def
      digit_char_def show_nat.simps)

lemma max_age_text_examples:
  "max_age_text e 1500 = ''1.5''"
  "max_age_text e (- 1500) = ''-1.5''"
  "max_age_text e (- 1000) = ''-1''"
  "max_age_text e 3600000 = ''3600''"
  using max_age_text_int [of 1500 e] max_age_text_int [of "- 1500" e]
    max_age_text_int [of "- 1000" e] max_age_text_int [of 3600000 e]
  by (simp_all add: show_int_div_1000_examples)

lemma setCacheControlHeaders_Cache_Control:
  assumes "maxAge st \<noteq> 0" and "\<not> truthy (getHeader hdrs ''Cache-Control'')"
  shows "getHeader (setCacheControlHeaders e st now hdrs) ''Cache-Control''
    = Some (''public, max-age='' @ max_age_text e (maxAge st))"
  using assms
  by (simp add: setCacheControlHeaders_def Let_def getHeader_setHeader toLowerCase_header_names)

text \<open>Further runs: a user agent with a dash, and a temporary directory made before.\<close>

lemma get_css_example_dash:
  "get_css example_env example_state ''UA-en'' ''US'' [''Arial''] =
     (Done (Inr \<lparr>css = ''@font-face{}'', cssPath = Some ''/tmp/fonts/UA-en-US-Arial.css''\<rparr>),
      example_state
        \<lparr>cssCache := [''UA-en-US-Arial'' \<mapsto>
            \<lparr>css = ''@font-face{}'', cssPath = Some ''/tmp/fonts/UA-en-US-Arial.css''\<rparr>],
         cssTmpPath := Some ''/tmp/fonts'',
         disk := [''/tmp/fonts/UA-en-US-Arial.css'' \<mapsto> ''@font-face{}''],
         generated := [(''UA-en'', ''US'', [''Arial''])]\<rparr>)"
  by (simp add: get_css_def getCacheKey_def example_state_def example_env_def generate_css_def
      prepareTmpPath_def path_join_def css_file_name_def replace_non_word_def is_word_char_simps
      Let_def)

lemma get_css_example_memoized:
  "get_css (example_env\<lparr>tmp_dir := Inr ''/tmp/other''\<rparr>)
       (example_state\<lparr>cssTmpPath := Some ''/tmp/fonts''\<rparr>) ''Mozilla/5.0'' ''fr'' [''Arial''] =
     (Done (Inr \<lparr>css = ''@font-face{}'', cssPath = Some ''/tmp/fonts/Mozilla-5-0-fr-Arial.css''\<rparr>),
      example_state
        \<lparr>cssCache := [''Mozilla/5.0-fr-Arial'' \<mapsto>
            \<lparr>css = ''@font-face{}'', cssPath = Some ''/tmp/fonts/Mozilla-5-0-fr-Arial.css''\<rparr>],
         cssTmpPath := Some ''/tmp/fonts'',
         disk := [''/tmp/fonts/Mozilla-5-0-fr-Arial.css'' \<mapsto> ''@font-face{}''],
         generated := [(''Mozilla/5.0'', ''fr'', [''Arial''])]\<rparr>)"
  by (simp add: get_css_def getCacheKey_def example_state_def example_env_def generate_css_def
      prepareTmpPath_def path_join_def css_file_name_def replace_non_word_def is_word_char_simps
      Let_def)

section \<open>The claims\<close>

text \<open>
  C1: when a call of \<^verbatim>\<open>get_css\<close> has yielded an entry, the next call with the same user
  agent, locale and fonts yields the same entry, hence the same \<^verbatim>\<open>cssPath\<close>, from the
  cache: the state after it is the state before it, so the generator has not been
  called again and nothing has been written, whatever the collaborators \<open>e'\<close> would
  have answered.
\<close>

theorem C1_second_call_is_a_cache_hit:
  assumes "get_css e st ua locale fonts = (Done (Inr obj), st1)"
  shows "get_css e' st1 ua locale fonts = (Done (Inr obj), st1)"
  using get_css_caches [OF assms] by (rule get_css_hit)

theorem C1_second_call_is_a_cache_hit_witness:
  "get_css broken_generator_env
     (snd (get_css example_env example_state ''Mozilla/5.0'' ''en'' [''Arial'', ''Roboto'']))
     ''Mozilla/5.0'' ''en'' [''Arial'', ''Roboto'']
   = get_css example_env example_state ''Mozilla/5.0'' ''en'' [''Arial'', ''Roboto'']
   \<and> generated (snd (get_css example_env example_state ''Mozilla/5.0'' ''en'' [''Arial'', ''Roboto'']))
     = [(''Mozilla/5.0'', ''en'', [''Arial'', ''Roboto''])]"
  using C1_second_call_is_a_cache_hit [OF get_css_example, of broken_generator_env]
  by (simp add: get_css_example)

text \<open>
  C2: a GET request for \<^verbatim>\<open>/en/Arial,Roboto/fonts.css\<close> matches, with locale \<^verbatim>\<open>en\<close> and
  fonts \<^verbatim>\<open>Arial\<close>, \<^verbatim>\<open>Roboto\<close>; a GET request for \<^verbatim>\<open>/Arial,Roboto/fonts.css\<close>, which has
  no locale segment, matches with the locale \<^verbatim>\<open>default\<close>. With a user agent, the
  responder calls \<^verbatim>\<open>get_css\<close> with this locale and these fonts.
\<close>

theorem C2_locale_and_fonts_of_url:
  "font_request \<lparr>req_method = ''GET'', url = ''/en/Arial,Roboto/fonts.css'', headers = h\<rparr>
     = Some (''en'', [''Arial'', ''Roboto''])
   \<and> font_request \<lparr>req_method = ''GET'', url = ''/Arial,Roboto/fonts.css'', headers = h\<rparr>
     = Some (''default'', [''Arial'', ''Roboto''])
   \<and> (config st = Some cfg \<and> request_ua cfg \<lparr>req_method = ''GET'', url = ''/en/Arial,Roboto/fonts.css'', headers = h\<rparr> = Some u \<and> u \<noteq> [] \<longrightarrow>
        font_css_responder e st \<lparr>req_method = ''GET'', url = ''/en/Arial,Roboto/fonts.css'', headers = h\<rparr>
          = css_callback (get_css e st u ''en'' [''Arial'', ''Roboto'']))
   \<and> (config st = Some cfg \<and> request_ua cfg \<lparr>req_method = ''GET'', url = ''/Arial,Roboto/fonts.css'', headers = h\<rparr> = Some u \<and> u \<noteq> [] \<longrightarrow>
        font_css_responder e st \<lparr>req_method = ''GET'', url = ''/Arial,Roboto/fonts.css'', headers = h\<rparr>
          = css_callback (get_css e st u ''default'' [''Arial'', ''Roboto'']))"
proof -
  let ?r1 = "\<lparr>req_method = ''GET'', url = ''/en/Arial,Roboto/fonts.css'', headers = h\<rparr>"
  let ?r2 = "\<lparr>req_method = ''GET'', url = ''/Arial,Roboto/fonts.css'', headers = h\<rparr>"
  have "font_request ?r1 = Some (''en'', split_comma ''Arial,Roboto'')"
    by (rule font_request_suffix [where p = "[]"]) simp_all
  then have 1: "font_request ?r1 = Some (''en'', [''Arial'', ''Roboto''])"
    by (simp add: split_comma_def)
  have "font_request ?r2 = Some (''default'', split_comma ''Arial,Roboto'')"
    by (rule font_request_no_locale) simp_all
  then have 2: "font_request ?r2 = Some (''default'', [''Arial'', ''Roboto''])"
    by (simp add: split_comma_def)
  show ?thesis
    using 1 2 by (simp add: font_css_responder_request)
qed

theorem C2_locale_and_fonts_of_url_witness:
  "fst (font_css_responder example_env example_state
          (example_request ''GET'' ''/en/Arial,Roboto/fonts.css''))
     = Serves (Some ''/tmp/fonts/Mozilla-5-0-en-Arial-Roboto.css'') False
   \<and> font_css_responder example_env example_state
          (example_request ''GET'' ''/Arial,Roboto/fonts.css'')
     = css_callback (get_css example_env example_state ''Mozilla/5.0'' ''default'' [''Arial'', ''Roboto''])
   \<and> font_request (example_request ''GET'' ''/Arial,Roboto/fonts.css'')
     = Some (''default'', [''Arial'', ''Roboto''])"
  using C2_locale_and_fonts_of_url [of "[''user-agent'' \<mapsto> ''Mozilla/5.0'']" example_state
      "\<lparr>options_ua = None\<rparr>" "''Mozilla/5.0''" example_env]
  by (simp add: example_request_def request_ua_def truthy_def get_css_example css_callback_def)
    (simp add: example_state_def)

text \<open>
  C3, as stated, fails: the key is the plain concatenation of user agent, locale and
  fonts with dashes between them, so a dash inside the user agent or the locale moves
  the border. Two different requests have one key, and the second is answered from
  the cache with the entry of the first, without a call of the generator:
\<close>

theorem C3_cache_key_collision:
  "(''UA-en'', ''US'', [''Arial'']) \<noteq> (''UA'', ''en-US'', [''Arial''])
   \<and> getCacheKey ''UA-en'' ''US'' [''Arial''] = getCacheKey ''UA'' ''en-US'' [''Arial'']
   \<and> get_css example_env (snd (get_css example_env example_state ''UA-en'' ''US'' [''Arial'']))
         ''UA'' ''en-US'' [''Arial'']
       = get_css example_env example_state ''UA-en'' ''US'' [''Arial'']
   \<and> generated (snd (get_css example_env example_state ''UA-en'' ''US'' [''Arial'']))
       = [(''UA-en'', ''US'', [''Arial''])]"
proof -
  have k: "getCacheKey ''UA-en'' ''US'' [''Arial''] = getCacheKey ''UA'' ''en-US'' [''Arial'']"
    by (simp add: getCacheKey_def)
  have "cssCache (snd (get_css example_env example_state ''UA-en'' ''US'' [''Arial'']))
      (getCacheKey ''UA'' ''en-US'' [''Arial''])
    = Some \<lparr>css = ''@font-face{}'', cssPath = Some ''/tmp/fonts/UA-en-US-Arial.css''\<rparr>"
    by (simp add: get_css_example_dash getCacheKey_def)
  from get_css_hit [OF this, of example_env] k show ?thesis
    by (simp add: get_css_example_dash)
qed

text \<open>
  C3, amended: on requests whose user agent and locale have no dash and whose font
  list is not empty and has no comma inside a font name (such is every list the
  responder makes by splitting at the commas), the key is injective: two requests
  that differ in a component have different keys, and \<^verbatim>\<open>get_css\<close> for the one leaves
  the cache entry of the other as it was.
\<close>

theorem C3_cache_key_injective_without_dashes:
  assumes "CHR ''-'' \<notin> set ua1" and "CHR ''-'' \<notin> set ua2"
    and "CHR ''-'' \<notin> set locale1" and "CHR ''-'' \<notin> set locale2"
    and "fonts1 \<noteq> []" and "fonts2 \<noteq> []"
    and "list_all (\<lambda>f. CHR '','' \<notin> set f) fonts1" and "list_all (\<lambda>f. CHR '','' \<notin> set f) fonts2"
    and "(ua1, locale1, fonts1) \<noteq> (ua2, locale2, fonts2)"
  shows "getCacheKey ua1 locale1 fonts1 \<noteq> getCacheKey ua2 locale2 fonts2
       \<and> cssCache (snd (get_css e st ua1 locale1 fonts1)) (getCacheKey ua2 locale2 fonts2)
           = cssCache st (getCacheKey ua2 locale2 fonts2)"
proof -
  have ne: "getCacheKey ua1 locale1 fonts1 \<noteq> getCacheKey ua2 locale2 fonts2"
  proof
    assume "getCacheKey ua1 locale1 fonts1 = getCacheKey ua2 locale2 fonts2"
    from getCacheKey_inject [OF assms(1-8) this] assms(9) show False by simp
  qed
  then show ?thesis by (simp add: get_css_other_key)
qed

theorem C3_cache_key_injective_without_dashes_witness:
  "getCacheKey ''Mozilla/5.0'' ''en'' [''Arial'', ''Roboto''] \<noteq> getCacheKey ''Mozilla/5.0'' ''fr'' [''Arial'', ''Roboto'']
   \<and> cssCache (snd (get_css example_env example_state ''Mozilla/5.0'' ''en'' [''Arial'', ''Roboto'']))
        (getCacheKey ''Mozilla/5.0'' ''fr'' [''Arial'', ''Roboto''])
      = None"
  using C3_cache_key_injective_without_dashes [of "''Mozilla/5.0''" "''Mozilla/5.0''" "''en''" "''fr''"
      "[''Arial'', ''Roboto'']" "[''Arial'', ''Roboto'']" example_env example_state]
  by (simp add: example_state_def)

text \<open>
  C4: for a matched request with a user agent, when \<^verbatim>\<open>get_css\<close> yields an error: if
  the error is an \<^verbatim>\<open>InvalidFontError\<close> the responder calls \<^verbatim>\<open>next()\<close> and sends no
  response; if it is any other error the responder throws that error.
\<close>

theorem C4_errors_of_get_css:
  assumes "font_request req = Some (locale, fonts)"
    and "config st = Some cfg"
    and "request_ua cfg req = Some ua" and "ua \<noteq> []"
    and "get_css e st ua locale fonts = (Done (Inl err), st')"
  shows "(instanceof_InvalidFontError err \<longrightarrow> font_css_responder e st req = (CallsNext, st'))
       \<and> (\<not> instanceof_InvalidFontError err \<longrightarrow> font_css_responder e st req = (Throws err, st'))"
  using assms by (simp add: font_css_responder_request css_callback_def)

theorem C4_errors_of_get_css_witness:
  "font_css_responder example_env example_state (example_request ''GET'' ''/en/Bogus/fonts.css'')
     = (CallsNext, example_state\<lparr>generated := [(''Mozilla/5.0'', ''en'', [''Bogus''])]\<rparr>)
   \<and> font_css_responder broken_generator_env example_state
       (example_request ''GET'' ''/en/Arial/fonts.css'')
     = (Throws (GenerationError ''no fonts''),
        example_state\<lparr>generated := [(''Mozilla/5.0'', ''en'', [''Arial''])]\<rparr>)
   \<and> font_css_responder full_disk_env example_state
       (example_request ''GET'' ''/en/Arial/fonts.css'')
     = (Throws (IOError ''ENOSPC''),
        example_state\<lparr>cssTmpPath := Some ''/tmp/fonts'',
          generated := [(''Mozilla/5.0'', ''en'', [''Arial''])]\<rparr>)"
proof -
  have r1: "font_request (example_request ''GET'' ''/en/Bogus/fonts.css'') = Some (''en'', [''Bogus''])"
    using font_request_suffix [of "example_request ''GET'' ''/en/Bogus/fonts.css''" "[]" "''en''" "''Bogus''"]
    by (simp add: example_request_def split_comma_def)
  have r2: "font_request (example_request ''GET'' ''/en/Arial/fonts.css'') = Some (''en'', [''Arial''])"
    using font_request_suffix [of "example_request ''GET'' ''/en/Arial/fonts.css''" "[]" "''en''" "''Arial''"]
    by (simp add: example_request_def split_comma_def)
  have c: "config example_state = Some \<lparr>options_ua = None\<rparr>"
    by (simp add: example_state_def)
  have u: "request_ua \<lparr>options_ua = None\<rparr> (example_request m x) = Some ''Mozilla/5.0''" for m x
    by (simp add: request_ua_def truthy_def example_request_def)
  show ?thesis
    using C4_errors_of_get_css [OF r1 c u _ get_css_example_errors(1)]
      C4_errors_of_get_css [OF r2 c u _ get_css_example_errors(2)]
      C4_errors_of_get_css [OF r2 c u _ get_css_example_errors(3)]
    by simp
qed

text \<open>
  C5, as stated, fails in three places. The number after \<^verbatim>\<open>max-age=\<close> is the quotient
  \<^verbatim>\<open>maxAge / 1000\<close> itself, not an integer: a max-age of 1500 milliseconds gives
  \<^verbatim>\<open>max-age=1.5\<close>. The test for a header that is already there is
  \<^verbatim>\<open>!res.getHeader(name)\<close>, which a header with an empty value passes: it is
  overwritten. And the test of the max-age is \<^verbatim>\<open>if (maxAge)\<close>, which a negative number
  passes: a max-age of -1000, which \<^verbatim>\<open>setup\<close> stores as it is, gives \<^verbatim>\<open>max-age=-1\<close>.
\<close>

theorem C5_quotient_sign_and_empty_header:
  "getHeader (setCacheControlHeaders example_env (example_state\<lparr>maxAge := 1500\<rparr>)
       ''Tue, 03 Nov 2026 09:30:00 GMT'' Map.empty) ''Cache-Control''
     = Some ''public, max-age=1.5''
   \<and> ''public, max-age=1.5'' \<noteq> ''public, max-age='' @ show_nat (1500 div 1000)
   \<and> getHeader (setCacheControlHeaders example_env example_state
       ''Tue, 03 Nov 2026 09:30:00 GMT'' (setHeader Map.empty ''Cache-Control'' ''''))
       ''Cache-Control''
     = Some ''public, max-age=3600''
   \<and> \<not> 0 < maxAge (example_state\<lparr>maxAge := - 1000\<rparr>)
   \<and> getHeader (setCacheControlHeaders example_env (example_state\<lparr>maxAge := - 1000\<rparr>)
       ''Tue, 03 Nov 2026 09:30:00 GMT'' Map.empty) ''Cache-Control''
     = Some ''public, max-age=-1''"
proof -
  let ?now = "''Tue, 03 Nov 2026 09:30:00 GMT''"
  have 1: "getHeader (setCacheControlHeaders example_env (example_state\<lparr>maxAge := 1500\<rparr>)
      ?now Map.empty) ''Cache-Control'' = Some ''public, max-age=1.5''"
    by (simp add: setCacheControlHeaders_Cache_Control getHeader_empty truthy_def
        max_age_text_examples)
  have 2: "''public, max-age=1.5'' \<noteq> ''public, max-age='' @ show_nat (1500 div 1000)"
    by (simp add: show_nat_one)
  have 3: "getHeader (setCacheControlHeaders example_env example_state ?now
      (setHeader Map.empty ''Cache-Control'' '''')) ''Cache-Control'' = Some ''public, max-age=3600''"
  proof -
    have "maxAge example_state = 3600000" by (simp add: example_state_def)
    then show ?thesis
      by (simp add: setCacheControlHeaders_Cache_Control getHeader_setHeader truthy_def
          max_age_text_examples)
  qed
  have 4: "getHeader (setCacheControlHeaders example_env (example_state\<lparr>maxAge := - 1000\<rparr>)
      ?now Map.empty) ''Cache-Control'' = Some ''public, max-age=-1''"
    by (simp add: setCacheControlHeaders_Cache_Control getHeader_empty truthy_def
        max_age_text_examples)
  from 1 2 3 4 show ?thesis by simp
qed

text \<open>
  C5, amended: headers are set only when \<^verbatim>\<open>maxAge\<close> is not zero, whatever its sign; a
  header that is there with a value that is not empty is never overwritten, and no
  header but \<^verbatim>\<open>Date\<close> and \<^verbatim>\<open>Cache-Control\<close> (in any case of the letters) is touched;
  with \<^verbatim>\<open>maxAge\<close> not zero, \<^verbatim>\<open>Date\<close> is set to the current time when it is absent or
  empty, and \<^verbatim>\<open>Cache-Control\<close>, when it is absent or empty, is set to
  \<^verbatim>\<open>public, max-age=\<close> followed by the text of the number \<^verbatim>\<open>maxAge / 1000\<close>. For an
  integer \<^verbatim>\<open>maxAge\<close> of magnitude below \<open>10^15\<close> that text is the exact decimal
  expansion of the quotient, and a whole number of seconds when \<^verbatim>\<open>maxAge\<close> is a
  multiple of 1000 that is not negative; a max-age of 3600000 gives
  \<^verbatim>\<open>public, max-age=3600\<close>.
\<close>

theorem C5_cache_control_headers:
  "(maxAge st = 0 \<longrightarrow> setCacheControlHeaders e st now hdrs = hdrs)
   \<and> (truthy (getHeader hdrs name) \<longrightarrow>
        getHeader (setCacheControlHeaders e st now hdrs) name = getHeader hdrs name)
   \<and> (toLowerCase name \<noteq> ''date'' \<and> toLowerCase name \<noteq> ''cache-control'' \<longrightarrow>
        getHeader (setCacheControlHeaders e st now hdrs) name = getHeader hdrs name)
   \<and> (maxAge st \<noteq> 0 \<and> \<not> truthy (getHeader hdrs ''Date'') \<longrightarrow>
        getHeader (setCacheControlHeaders e st now hdrs) ''Date'' = Some now)
   \<and> (maxAge st \<noteq> 0 \<and> \<not> truthy (getHeader hdrs ''Cache-Control'') \<longrightarrow>
        getHeader (setCacheControlHeaders e st now hdrs) ''Cache-Control''
          = Some (''public, max-age='' @ max_age_text e (maxAge st)))
   \<and> (maxAge st = of_int m \<and> \<bar>m\<bar> < 10 ^ 15 \<longrightarrow>
        max_age_text e (maxAge st) = show_int_div_1000 m)
   \<and> (maxAge st = of_int m \<and> 0 \<le> m \<and> m < 10 ^ 15 \<and> m mod 1000 = 0 \<longrightarrow>
        max_age_text e (maxAge st) = show_nat (nat (m div 1000)))
   \<and> (maxAge st = 3600000 \<and> \<not> truthy (getHeader hdrs ''Cache-Control'') \<longrightarrow>
        getHeader (setCacheControlHeaders e st now hdrs) ''Cache-Control''
          = Some ''public, max-age=3600'')"
proof (intro conjI impI)
  show "setCacheControlHeaders e st now hdrs = hdrs" if "maxAge st = 0"
    using that by (simp add: setCacheControlHeaders_def)
  show "getHeader (setCacheControlHeaders e st now hdrs) name = getHeader hdrs name"
    if "truthy (getHeader hdrs name)"
  proof -
    have d: "getHeader hdrs ''Date'' = getHeader hdrs name" if "toLowerCase name = ''date''"
      using that by (simp add: getHeader_same_name toLowerCase_header_names)
    have c: "getHeader hdrs ''Cache-Control'' = getHeader hdrs name"
      if "toLowerCase name = ''cache-control''"
      using that by (simp add: getHeader_same_name toLowerCase_header_names)
    from \<open>truthy (getHeader hdrs name)\<close> d c show ?thesis
      by (auto simp: setCacheControlHeaders_def Let_def getHeader_setHeader
          toLowerCase_header_names)
  qed
  show "getHeader (setCacheControlHeaders e st now hdrs) name = getHeader hdrs name"
    if "toLowerCase name \<noteq> ''date'' \<and> toLowerCase name \<noteq> ''cache-control''"
    using that
    by (simp add: setCacheControlHeaders_def Let_def getHeader_setHeader toLowerCase_header_names)
  show "getHeader (setCacheControlHeaders e st now hdrs) ''Date'' = Some now"
    if "maxAge st \<noteq> 0 \<and> \<not> truthy (getHeader hdrs ''Date'')"
    using that
    by (simp add: setCacheControlHeaders_def Let_def getHeader_setHeader toLowerCase_header_names)
  show "getHeader (setCacheControlHeaders e st now hdrs) ''Cache-Control''
          = Some (''public, max-age='' @ max_age_text e (maxAge st))"
    if "maxAge st \<noteq> 0 \<and> \<not> truthy (getHeader hdrs ''Cache-Control'')"
    using that by (simp add: setCacheControlHeaders_Cache_Control)
  show "max_age_text e (maxAge st) = show_int_div_1000 m"
    if "maxAge st = of_int m \<and> \<bar>m\<bar> < 10 ^ 15"
    using that by (simp add: max_age_text_int)
  show "max_age_text e (maxAge st) = show_nat (nat (m div 1000))"
    if "maxAge st = of_int m \<and> 0 \<le> m \<and> m < 10 ^ 15 \<and> m mod 1000 = 0"
    using that by (simp add: max_age_text_int show_int_div_1000_whole)
  show "getHeader (setCacheControlHeaders e st now hdrs) ''Cache-Control''
          = Some ''public, max-age=3600''"
    if "maxAge st = 3600000 \<and> \<not> truthy (getHeader hdrs ''Cache-Control'')"
    using that by (simp add: setCacheControlHeaders_Cache_Control max_age_text_examples)
qed

theorem C5_cache_control_headers_witness:
  "setCacheControlHeaders example_env (example_state\<lparr>maxAge := 0\<rparr>)
       ''Tue, 03 Nov 2026 09:30:00 GMT'' Map.empty = Map.empty
   \<and> getHeader (setCacheControlHeaders example_env example_state ''Tue, 03 Nov 2026 09:30:00 GMT''
        (setHeader Map.empty ''cache-control'' ''no-cache'')) ''Cache-Control'' = Some ''no-cache''
   \<and> getHeader (setCacheControlHeaders example_env example_state ''Tue, 03 Nov 2026 09:30:00 GMT''
        (setHeader Map.empty ''cache-control'' ''no-cache'')) ''Content-Type'' = None
   \<and> getHeader (setCacheControlHeaders example_env (example_state\<lparr>maxAge := 1 / 2\<rparr>)
        ''Tue, 03 Nov 2026 09:30:00 GMT'' Map.empty) ''Date''
      = Some ''Tue, 03 Nov 2026 09:30:00 GMT''
   \<and> getHeader (setCacheControlHeaders example_env (example_state\<lparr>maxAge := - 1500\<rparr>)
        ''Tue, 03 Nov 2026 09:30:00 GMT'' Map.empty) ''Cache-Control''
      = Some ''public, max-age=-1.5''
   \<and> max_age_text example_env (maxAge example_state) = show_nat 3600
   \<and> getHeader (setCacheControlHeaders example_env example_state ''Tue, 03 Nov 2026 09:30:00 GMT''
        Map.empty) ''Cache-Control'' = Some ''public, max-age=3600''"
proof -
  let ?now = "''Tue, 03 Nov 2026 09:30:00 GMT''"
  let ?h = "setHeader Map.empty ''cache-control'' ''no-cache''"
  have m: "maxAge example_state = 3600000"
    by (simp add: example_state_def)
  have g: "getHeader ?h ''Cache-Control'' = Some ''no-cache''"
    "getHeader ?h ''Content-Type'' = None" "getHeader Map.empty n = None" for n
    by (simp_all add: getHeader_setHeader toLowerCase_header_names getHeader_empty)
  note a = C5_cache_control_headers [where st = "example_state\<lparr>maxAge := 0\<rparr>"
      and e = example_env and now = ?now and hdrs = Map.empty and name = "''Date''"]
  note b = C5_cache_control_headers [where st = example_state and e = example_env
      and now = ?now and hdrs = ?h and name = "''Cache-Control''"]
  note c = C5_cache_control_headers [where st = example_state and e = example_env
      and now = ?now and hdrs = ?h and name = "''Content-Type''"]
  note d = C5_cache_control_headers [where st = "example_state\<lparr>maxAge := 1 / 2\<rparr>"
      and e = example_env and now = ?now and hdrs = Map.empty and name = "''Date''"]
  note f = C5_cache_control_headers [where st = "example_state\<lparr>maxAge := - 1500\<rparr>"
      and e = example_env and now = ?now and hdrs = Map.empty and name = "''Date''"
      and m = "- 1500"]
  note k = C5_cache_control_headers [where st = example_state and e = example_env
      and now = ?now and hdrs = Map.empty and name = "''Date''" and m = 3600000]
  from a have 1: "setCacheControlHeaders example_env (example_state\<lparr>maxAge := 0\<rparr>) ?now Map.empty
      = Map.empty"
    by simp
  from b g have 2: "getHeader (setCacheControlHeaders example_env example_state ?now ?h)
      ''Cache-Control'' = Some ''no-cache''"
    by (simp add: truthy_def)
  from c g have 3: "getHeader (setCacheControlHeaders example_env example_state ?now ?h)
      ''Content-Type'' = None"
    by (simp add: toLowerCase_header_names)
  from d g have 4: "getHeader (setCacheControlHeaders example_env (example_state\<lparr>maxAge := 1 / 2\<rparr>)
      ?now Map.empty) ''Date'' = Some ?now"
    by (simp add: truthy_def)
  from f g have 5: "getHeader (setCacheControlHeaders example_env (example_state\<lparr>maxAge := - 1500\<rparr>)
      ?now Map.empty) ''Cache-Control'' = Some ''public, max-age=-1.5''"
    by (simp add: truthy_def show_int_div_1000_examples)
  from m k [THEN conjunct2, THEN conjunct2, THEN conjunct2, THEN conjunct2, THEN conjunct2,
      THEN conjunct2, THEN conjunct1]
  have 6: "max_age_text example_env (maxAge example_state) = show_nat 3600"
    by simp
  from m g k [THEN conjunct2, THEN conjunct2, THEN conjunct2, THEN conjunct2, THEN conjunct2,
      THEN conjunct2, THEN conjunct2]
  have 7: "getHeader (setCacheControlHeaders example_env example_state ?now Map.empty)
      ''Cache-Control'' = Some ''public, max-age=3600''"
    by (simp add: truthy_def)
  from 1 2 3 4 5 6 7 show ?thesis by simp
qed

text \<open>
  C6, as stated, fails in its second half: the file name does not tell all keys
  apart. Two user agents that differ in a character outside \<^verbatim>\<open>\w\<close> give two cache keys
  and one file.
\<close>

theorem C6_two_keys_one_file:
  "getCacheKey ''Mozilla/5.0'' ''en'' [''Arial''] \<noteq> getCacheKey ''Mozilla 5.0'' ''en'' [''Arial'']
   \<and> css_file_name (getCacheKey ''Mozilla/5.0'' ''en'' [''Arial''])
     = css_file_name (getCacheKey ''Mozilla 5.0'' ''en'' [''Arial''])
   \<and> fst (get_css example_env example_state ''Mozilla/5.0'' ''en'' [''Arial''])
     = Done (Inr \<lparr>css = ''@font-face{}'', cssPath = Some ''/tmp/fonts/Mozilla-5-0-en-Arial.css''\<rparr>)
   \<and> fst (get_css example_env example_state ''Mozilla 5.0'' ''en'' [''Arial''])
     = Done (Inr \<lparr>css = ''@font-face{}'', cssPath = Some ''/tmp/fonts/Mozilla-5-0-en-Arial.css''\<rparr>)"
  by (simp add: get_css_example_extra get_css_example_space)
    (simp add: getCacheKey_def css_file_name_def replace_non_word_def is_word_char_simps)

text \<open>
  C6, amended: on a miss that succeeds, the CSS is written to the file whose name is
  the cache key with every character outside \<^verbatim>\<open>\w\<close> replaced by a dash, followed by
  \<^verbatim>\<open>.css\<close>, inside the temporary directory of the module, which stays the same once
  it is set; the entry holds that path. Keys made of word characters and dashes only
  have different file names when they differ.
\<close>

theorem C6_file_of_a_cache_key:
  assumes "cssCache st (getCacheKey ua locale fonts) = None"
    and "get_css e st ua locale fonts = (Done (Inr obj), st')"
  shows "(\<exists>tmpPath. cssTmpPath st' = Some tmpPath
            \<and> cssPath obj = Some (tmpPath @ ''/'' @
                 map (\<lambda>c. if is_word_char c then c else CHR ''-'') (getCacheKey ua locale fonts)
                 @ ''.css'')
            \<and> disk st' (tmpPath @ ''/'' @
                 map (\<lambda>c. if is_word_char c then c else CHR ''-'') (getCacheKey ua locale fonts)
                 @ ''.css'') = Some (css obj))
       \<and> (truthy (cssTmpPath st) \<longrightarrow> cssTmpPath st' = cssTmpPath st)
       \<and> (list_all (\<lambda>c. is_word_char c \<or> c = CHR ''-'') k1
            \<and> list_all (\<lambda>c. is_word_char c \<or> c = CHR ''-'') k2
            \<and> css_file_name k1 = css_file_name k2 \<longrightarrow> k1 = k2)"
proof -
  let ?st1 = "st\<lparr>generated := (ua, locale, fonts) # generated st\<rparr>"
  let ?key = "getCacheKey ua locale fonts"
  from get_css_miss_Inr [OF assms] obtain cssStr tmpPath st2
    where p: "prepareTmpPath e ?st1 = (Inr tmpPath, st2)"
      and obj: "obj = \<lparr>css = cssStr, cssPath = Some (path_join tmpPath (css_file_name ?key))\<rparr>"
      and st': "st' = st2\<lparr>disk := (disk st2)(path_join tmpPath (css_file_name ?key) \<mapsto> cssStr),
           cssCache := (cssCache st2)(?key \<mapsto> obj)\<rparr>"
    by blast
  from prepareTmpPath_Inr [OF p]
  have t: "cssTmpPath st2 = Some tmpPath" and keep: "truthy (cssTmpPath st) \<longrightarrow> st2 = ?st1"
    by simp_all
  have n: "path_join tmpPath (css_file_name ?key)
      = tmpPath @ ''/'' @ map (\<lambda>c. if is_word_char c then c else CHR ''-'') ?key @ ''.css''"
    by (simp add: path_join_def css_file_name_def replace_non_word_def)
  have 1: "cssTmpPath st' = Some tmpPath"
    by (simp add: st' t)
  have 2: "cssPath obj = Some (path_join tmpPath (css_file_name ?key))"
    by (simp add: obj)
  have 3: "disk st' (path_join tmpPath (css_file_name ?key)) = Some (css obj)"
    by (simp add: st' obj)
  have 4: "truthy (cssTmpPath st) \<longrightarrow> cssTmpPath st' = cssTmpPath st"
  proof
    assume "truthy (cssTmpPath st)"
    with keep have "st2 = ?st1" by simp
    then have "cssTmpPath st2 = cssTmpPath st" by simp
    then show "cssTmpPath st' = cssTmpPath st" by (simp add: st')
  qed
  have 5: "list_all (\<lambda>c. is_word_char c \<or> c = CHR ''-'') k1
            \<and> list_all (\<lambda>c. is_word_char c \<or> c = CHR ''-'') k2
            \<and> css_file_name k1 = css_file_name k2 \<longrightarrow> k1 = k2"
  proof (intro impI, elim conjE)
    assume a: "list_all (\<lambda>c. is_word_char c \<or> c = CHR ''-'') k1"
      and b: "list_all (\<lambda>c. is_word_char c \<or> c = CHR ''-'') k2"
      and c: "css_file_name k1 = css_file_name k2"
    from c have "replace_non_word k1 = replace_non_word k2"
      by (simp add: css_file_name_def)
    then show "k1 = k2"
      by (simp only: replace_non_word_clean [OF a] replace_non_word_clean [OF b])
  qed
  have p2: "cssPath obj = Some (tmpPath @ ''/'' @
      map (\<lambda>c. if is_word_char c then c else CHR ''-'') ?key @ ''.css'')"
    using 2 n by simp
  have p3: "disk st' (tmpPath @ ''/'' @
      map (\<lambda>c. if is_word_char c then c else CHR ''-'') ?key @ ''.css'') = Some (css obj)"
    using 3 n by simp
  show ?thesis
  proof (intro conjI)
    show "\<exists>tmpPath. cssTmpPath st' = Some tmpPath
            \<and> cssPath obj = Some (tmpPath @ ''/'' @
                 map (\<lambda>c. if is_word_char c then c else CHR ''-'') (getCacheKey ua locale fonts)
                 @ ''.css'')
            \<and> disk st' (tmpPath @ ''/'' @
                 map (\<lambda>c. if is_word_char c then c else CHR ''-'') (getCacheKey ua locale fonts)
                 @ ''.css'') = Some (css obj)"
      by (rule exI [of _ tmpPath]) (intro conjI 1 p2 p3)
    show "truthy (cssTmpPath st) \<longrightarrow> cssTmpPath st' = cssTmpPath st"
      by (rule 4)
    show "list_all (\<lambda>c. is_word_char c \<or> c = CHR ''-'') k1
            \<and> list_all (\<lambda>c. is_word_char c \<or> c = CHR ''-'') k2
            \<and> css_file_name k1 = css_file_name k2 \<longrightarrow> k1 = k2"
      by (rule 5)
  qed
qed

theorem C6_file_of_a_cache_key_witness:
  "disk (snd (get_css example_env example_state ''Mozilla/5.0'' ''en'' [''Arial'', ''Roboto'']))
       ''/tmp/fonts/Mozilla-5-0-en-Arial-Roboto.css'' = Some ''@font-face{}''
   \<and> css_file_name ''Opera-en-Arial'' \<noteq> css_file_name ''Opera-fr-Arial''
   \<and> cssTmpPath (snd (get_css (example_env\<lparr>tmp_dir := Inr ''/tmp/other''\<rparr>)
          (example_state\<lparr>cssTmpPath := Some ''/tmp/fonts''\<rparr>) ''Mozilla/5.0'' ''fr'' [''Arial'']))
       = Some ''/tmp/fonts''"
proof -
  have m: "cssCache example_state (getCacheKey ''Mozilla/5.0'' ''en'' [''Arial'', ''Roboto'']) = None"
    by (simp add: example_state_def)
  let ?st' = "example_state
        \<lparr>cssCache := [''Mozilla/5.0-en-Arial,Roboto'' \<mapsto>
            \<lparr>css = ''@font-face{}'',
             cssPath = Some ''/tmp/fonts/Mozilla-5-0-en-Arial-Roboto.css''\<rparr>],
         cssTmpPath := Some ''/tmp/fonts'',
         disk := [''/tmp/fonts/Mozilla-5-0-en-Arial-Roboto.css'' \<mapsto> ''@font-face{}''],
         generated := [(''Mozilla/5.0'', ''en'', [''Arial'', ''Roboto''])]\<rparr>"
  have n: "map (\<lambda>c. if is_word_char c then c else CHR ''-'')
       (getCacheKey ''Mozilla/5.0'' ''en'' [''Arial'', ''Roboto'']) = ''Mozilla-5-0-en-Arial-Roboto''"
    by (simp add: getCacheKey_def is_word_char_simps)
  note c6 = C6_file_of_a_cache_key [OF m get_css_example, of "''Opera-en-Arial''" "''Opera-fr-Arial''"]
  from c6 obtain tmpPath where t: "cssTmpPath ?st' = Some tmpPath"
    and d: "disk ?st' (tmpPath @ ''/'' @ ''Mozilla-5-0-en-Arial-Roboto'' @ ''.css'') = Some ''@font-face{}''"
    unfolding n by auto
  from t have "tmpPath = ''/tmp/fonts''" by simp
  with d have 1: "disk ?st' ''/tmp/fonts/Mozilla-5-0-en-Arial-Roboto.css'' = Some ''@font-face{}''"
    by simp
  have k: "list_all (\<lambda>c. is_word_char c \<or> c = CHR ''-'') ''Opera-en-Arial''"
    "list_all (\<lambda>c. is_word_char c \<or> c = CHR ''-'') ''Opera-fr-Arial''"
    by (simp_all add: is_word_char_simps)
  from c6 k have 2: "css_file_name ''Opera-en-Arial'' \<noteq> css_file_name ''Opera-fr-Arial''"
    by auto
  let ?st0 = "example_state\<lparr>cssTmpPath := Some ''/tmp/fonts''\<rparr>"
  have m': "cssCache ?st0 (getCacheKey ''Mozilla/5.0'' ''fr'' [''Arial'']) = None"
    by (simp add: example_state_def)
  have tr: "truthy (cssTmpPath ?st0)" "cssTmpPath ?st0 = Some ''/tmp/fonts''"
    by (simp_all add: truthy_def)
  from C6_file_of_a_cache_key [OF m' get_css_example_memoized] tr
  have 3: "cssTmpPath (snd (get_css (example_env\<lparr>tmp_dir := Inr ''/tmp/other''\<rparr>) ?st0
      ''Mozilla/5.0'' ''fr'' [''Arial''])) = Some ''/tmp/fonts''"
    unfolding get_css_example_memoized snd_conv by simp
  from 1 2 3 show ?thesis by (simp add: get_css_example)
qed

text \<open>
  C7: on a cache miss, when the generator answers with an error, or when it answers
  with CSS and writing the file fails, \<^verbatim>\<open>get_css\<close> hands that very error to its callback
  and the cache is as it was before the call: nothing is cached under the key.
\<close>

theorem C7_failures_are_not_cached:
  assumes "cssCache st (getCacheKey ua locale fonts) = None"
  shows "(get_font_css e ua locale fonts = Inl err \<longrightarrow>
            fst (get_css e st ua locale fonts) = Done (Inl err)
            \<and> cssCache (snd (get_css e st ua locale fonts)) = cssCache st)
       \<and> (get_font_css e ua locale fonts = Inr cssStr
            \<and> fst (prepareTmpPath e st) = Inr tmpPath
            \<and> writeFile e (path_join tmpPath (css_file_name (getCacheKey ua locale fonts))) cssStr
                = Some err \<longrightarrow>
            fst (get_css e st ua locale fonts) = Done (Inl err)
            \<and> cssCache (snd (get_css e st ua locale fonts)) = cssCache st)"
proof (intro conjI impI)
  assume g: "get_font_css e ua locale fonts = Inl err"
  with assms show "fst (get_css e st ua locale fonts) = Done (Inl err)"
    by (simp add: get_css_def generate_css_def Let_def)
  from assms g show "cssCache (snd (get_css e st ua locale fonts)) = cssCache st"
    by (simp add: get_css_def generate_css_def Let_def)
next
  assume h: "get_font_css e ua locale fonts = Inr cssStr
    \<and> fst (prepareTmpPath e st) = Inr tmpPath
    \<and> writeFile e (path_join tmpPath (css_file_name (getCacheKey ua locale fonts))) cssStr = Some err"
  obtain st2 where p: "prepareTmpPath e st = (Inr tmpPath, st2)"
    using h by (cases "prepareTmpPath e st") simp
  have c: "cssCache st2 = cssCache st"
    using prepareTmpPath_cssCache [OF p] by simp
  from assms h p show "fst (get_css e st ua locale fonts) = Done (Inl err)"
    by (simp add: get_css_def generate_css_def Let_def prepareTmpPath_generated)
  from assms h p c show "cssCache (snd (get_css e st ua locale fonts)) = cssCache st"
    by (simp add: get_css_def generate_css_def Let_def prepareTmpPath_generated)
qed

theorem C7_failures_are_not_cached_witness:
  "fst (get_css broken_generator_env example_state ''Mozilla/5.0'' ''en'' [''Arial''])
     = Done (Inl (GenerationError ''no fonts''))
   \<and> cssCache (snd (get_css broken_generator_env example_state ''Mozilla/5.0'' ''en'' [''Arial'']))
     = Map.empty
   \<and> fst (get_css full_disk_env example_state ''Mozilla/5.0'' ''en'' [''Arial''])
     = Done (Inl (IOError ''ENOSPC''))
   \<and> cssCache (snd (get_css full_disk_env example_state ''Mozilla/5.0'' ''en'' [''Arial'']))
     = Map.empty"
proof -
  have m: "cssCache example_state (getCacheKey ''Mozilla/5.0'' ''en'' [''Arial'']) = None"
    by (simp add: example_state_def)
  have e: "cssCache example_state = Map.empty"
    by (simp add: example_state_def)
  have g: "get_font_css broken_generator_env ''Mozilla/5.0'' ''en'' [''Arial'']
      = Inl (GenerationError ''no fonts'')"
    by (simp add: broken_generator_env_def example_env_def)
  have w: "get_font_css full_disk_env ''Mozilla/5.0'' ''en'' [''Arial''] = Inr ''@font-face{}''
      \<and> fst (prepareTmpPath full_disk_env example_state) = Inr ''/tmp/fonts''
      \<and> writeFile full_disk_env
          (path_join ''/tmp/fonts'' (css_file_name (getCacheKey ''Mozilla/5.0'' ''en'' [''Arial''])))
          ''@font-face{}'' = Some (IOError ''ENOSPC'')"
    by (simp add: full_disk_env_def example_env_def prepareTmpPath_def example_state_def)
  show ?thesis
    using C7_failures_are_not_cached [OF m, of broken_generator_env "GenerationError ''no fonts''"]
      C7_failures_are_not_cached [OF m, of full_disk_env "IOError ''ENOSPC''" "''@font-face{}''"
        "''/tmp/fonts''"]
      g w e
    by simp
qed

text \<open>
  C8: a request that does not match, because its method is not GET (whatever its
  URL) or because the pattern does not match its URL, goes to the next handler: the
  responder calls \<^verbatim>\<open>next()\<close>, throws nothing, serves nothing and leaves the module's
  state as it was.
\<close>

theorem C8_unmatched_request_passes_through:
  assumes "req_method req \<noteq> ''GET'' \<or> re_fonts_exec (url req) = None"
  shows "font_css_responder e st req = (CallsNext, st)"
  using assms by (auto simp: font_css_responder_def)

theorem C8_unmatched_request_passes_through_witness:
  "font_css_responder example_env example_state (example_request ''POST'' ''/en/Arial/fonts.css'')
     = (CallsNext, example_state)
   \<and> re_fonts_exec ''/en/Arial/fonts.css'' = Some (Some ''en'', ''Arial'')
   \<and> font_css_responder example_env example_state (example_request ''GET'' ''/index.html'')
     = (CallsNext, example_state)"
proof -
  have 1: "re_fonts_exec ''/index.html'' = None"
    by code_simp
  have 2: "re_fonts_exec ''/en/Arial/fonts.css'' = Some (Some ''en'', ''Arial'')"
    by code_simp
  show ?thesis
    using C8_unmatched_request_passes_through
      [of "example_request ''POST'' ''/en/Arial/fonts.css''" example_env example_state]
      C8_unmatched_request_passes_through
      [of "example_request ''GET'' ''/index.html''" example_env example_state]
      1 2
    by (simp add: example_request_def)
qed

text \<open>
  C9: the pattern is anchored at the end of the URL only. For every GET request whose
  URL ends with \<^verbatim>\<open>/seg1/seg2/fonts.css\<close>, where \<open>seg1\<close> and \<open>seg2\<close> are not empty and
  have no slash, the responder matches with locale \<open>seg1\<close> and with the fonts of
  \<open>seg2\<close> split at the commas, whatever path \<open>p\<close> comes before: with a user agent it
  calls \<^verbatim>\<open>get_css\<close> with them.
\<close>

theorem C9_match_is_anchored_at_the_end_only:
  assumes "req_method req = ''GET''"
    and "url req = p @ ''/'' @ seg1 @ ''/'' @ seg2 @ ''/fonts.css''"
    and "seg1 \<noteq> []" and "CHR ''/'' \<notin> set seg1"
    and "seg2 \<noteq> []" and "CHR ''/'' \<notin> set seg2"
  shows "re_fonts_exec (url req) = Some (Some seg1, seg2)
       \<and> font_request req = Some (seg1, split_comma seg2)
       \<and> (config st = Some cfg \<and> request_ua cfg req = Some u \<and> u \<noteq> [] \<longrightarrow>
            font_css_responder e st req = css_callback (get_css e st u seg1 (split_comma seg2)))"
proof -
  have "re_fonts_exec (url req) = Some (Some seg1, seg2)"
    using assms re_fonts_exec_suffix [of seg1 seg2 p] by simp
  moreover have "font_request req = Some (seg1, split_comma seg2)"
    using assms by (rule font_request_suffix)
  ultimately show ?thesis
    by (simp add: font_css_responder_request)
qed

theorem C9_match_is_anchored_at_the_end_only_witness:
  "font_request (example_request ''GET'' ''/extra/en/Arial/fonts.css'') = Some (''en'', [''Arial''])
   \<and> fst (font_css_responder example_env example_state
            (example_request ''GET'' ''/extra/en/Arial/fonts.css''))
       = Serves (Some ''/tmp/fonts/Mozilla-5-0-en-Arial.css'') False"
proof -
  let ?req = "example_request ''GET'' ''/extra/en/Arial/fonts.css''"
  have c: "config example_state = Some \<lparr>options_ua = None\<rparr>"
    by (simp add: example_state_def)
  have u: "request_ua \<lparr>options_ua = None\<rparr> ?req = Some ''Mozilla/5.0''"
    by (simp add: request_ua_def truthy_def example_request_def)
  have s: "split_comma ''Arial'' = [''Arial'']"
    by (simp add: split_comma_def)
  from C9_match_is_anchored_at_the_end_only [of ?req "''/extra''" "''en''" "''Arial''"
      example_state "\<lparr>options_ua = None\<rparr>" "''Mozilla/5.0''" example_env]
  have "font_request ?req = Some (''en'', split_comma ''Arial'')"
    and "font_css_responder example_env example_state ?req
      = css_callback (get_css example_env example_state ''Mozilla/5.0'' ''en'' (split_comma ''Arial''))"
    using c u by (simp_all add: example_request_def)
  then show ?thesis
    by (simp add: s get_css_example_extra css_callback_def) (simp add: example_state_def)
qed

text \<open>
  C10: for a GET request whose URL matches, when \<^verbatim>\<open>config.ua\<close> and the request's
  \<^verbatim>\<open>user-agent\<close> header are both falsy (absent or empty), the responder does not call
  \<^verbatim>\<open>get_css\<close>: it calls \<^verbatim>\<open>next()\<close>, and the state, with the cache and the list of the
  generator's calls, is as it was, whatever the collaborators would have answered.
\<close>

theorem C10_no_user_agent_passes_through:
  assumes "req_method req = ''GET''"
    and "re_fonts_exec (url req) = Some m"
    and "config st = Some cfg"
    and "\<not> truthy (options_ua cfg)"
    and "\<not> truthy (headers req ''user-agent'')"
  shows "font_css_responder e st req = (CallsNext, st)"
  using assms
  by (auto simp: font_css_responder_def truthy_def Let_def split: option.splits prod.splits)

theorem C10_no_user_agent_passes_through_witness:
  "font_css_responder example_env example_state
     \<lparr>req_method = ''GET'', url = ''/en/Arial/fonts.css'', headers = Map.empty\<rparr>
     = (CallsNext, example_state)
   \<and> font_css_responder example_env example_state
     \<lparr>req_method = ''GET'', url = ''/en/Arial/fonts.css'', headers = [''user-agent'' \<mapsto> '''']\<rparr>
     = (CallsNext, example_state)"
proof -
  have 2: "re_fonts_exec ''/en/Arial/fonts.css'' = Some (Some ''en'', ''Arial'')"
    by code_simp
  have c: "config example_state = Some \<lparr>options_ua = None\<rparr>"
    by (simp add: example_state_def)
  show ?thesis
    using C10_no_user_agent_passes_through
      [of "\<lparr>req_method = ''GET'', url = ''/en/Arial/fonts.css'', headers = Map.empty\<rparr>"
          "(Some ''en'', ''Arial'')" example_state "\<lparr>options_ua = None\<rparr>" example_env]
      C10_no_user_agent_passes_through
      [of "\<lparr>req_method = ''GET'', url = ''/en/Arial/fonts.css'', headers = [''user-agent'' \<mapsto> '''']\<rparr>"
          "(Some ''en'', ''Arial'')" example_state "\<lparr>options_ua = None\<rparr>" example_env]
      2 c
    by (simp add: truthy_def)
qed

end
